theory Spec2Isabelle
  imports Complex_Main "HOL-Library.Option_ord" "HOL-Library.Multiset"
begin

section \<open>JavaScript numbers\<close>

text \<open>
  A JavaScript number is a double. The finite doubles are idealised as reals (no
  rounding, no overflow, no signed zero); the three special values are kept, because
  the code under study produces them: \<open>0 / 0\<close> and any arithmetic on \<open>undefined\<close>
  give \<open>NaN\<close>, and every comparison with \<open>NaN\<close> is false.
\<close>

datatype jsnum = Num real | PosInf | NegInf | NaN

fun js_neg :: "jsnum \<Rightarrow> jsnum" where
  "js_neg (Num a) = Num (- a)"
| "js_neg PosInf = NegInf"
| "js_neg NegInf = PosInf"
| "js_neg NaN = NaN"

fun js_add :: "jsnum \<Rightarrow> jsnum \<Rightarrow> jsnum" where
  "js_add NaN _ = NaN"
| "js_add _ NaN = NaN"
| "js_add (Num a) (Num b) = Num (a + b)"
| "js_add PosInf NegInf = NaN"
| "js_add NegInf PosInf = NaN"
| "js_add PosInf _ = PosInf"
| "js_add _ PosInf = PosInf"
| "js_add NegInf _ = NegInf"
| "js_add _ NegInf = NegInf"

definition js_sub :: "jsnum \<Rightarrow> jsnum \<Rightarrow> jsnum" where
  "js_sub a b = js_add a (js_neg b)"

fun js_mul :: "jsnum \<Rightarrow> jsnum \<Rightarrow> jsnum" where
  "js_mul NaN _ = NaN"
| "js_mul _ NaN = NaN"
| "js_mul (Num a) (Num b) = Num (a * b)"
| "js_mul (Num a) PosInf = (if a = 0 then NaN else if 0 < a then PosInf else NegInf)"
| "js_mul (Num a) NegInf = (if a = 0 then NaN else if 0 < a then NegInf else PosInf)"
| "js_mul PosInf (Num b) = (if b = 0 then NaN else if 0 < b then PosInf else NegInf)"
| "js_mul NegInf (Num b) = (if b = 0 then NaN else if 0 < b then NegInf else PosInf)"
| "js_mul PosInf PosInf = PosInf"
| "js_mul PosInf NegInf = NegInf"
| "js_mul NegInf PosInf = NegInf"
| "js_mul NegInf NegInf = PosInf"

fun js_div :: "jsnum \<Rightarrow> jsnum \<Rightarrow> jsnum" where
  "js_div NaN _ = NaN"
| "js_div _ NaN = NaN"
| "js_div (Num a) (Num b) =
     (if b \<noteq> 0 then Num (a / b)
      else if a = 0 then NaN
      else if 0 < a then PosInf else NegInf)"
| "js_div (Num a) PosInf = Num 0"
| "js_div (Num a) NegInf = Num 0"
| "js_div PosInf (Num b) = (if 0 \<le> b then PosInf else NegInf)"
| "js_div NegInf (Num b) = (if 0 \<le> b then NegInf else PosInf)"
| "js_div PosInf PosInf = NaN"
| "js_div PosInf NegInf = NaN"
| "js_div NegInf PosInf = NaN"
| "js_div NegInf NegInf = NaN"

text \<open>The relational operators \<open><\<close> and \<open>>\<close>: false as soon as one side is \<open>NaN\<close>.\<close>

fun js_lt :: "jsnum \<Rightarrow> jsnum \<Rightarrow> bool" where
  "js_lt NaN _ = False"
| "js_lt _ NaN = False"
| "js_lt (Num a) (Num b) = (a < b)"
| "js_lt PosInf _ = False"
| "js_lt _ PosInf = True"
| "js_lt NegInf NegInf = False"
| "js_lt NegInf _ = True"
| "js_lt _ NegInf = False"

definition js_gt :: "jsnum \<Rightarrow> jsnum \<Rightarrow> bool" where
  "js_gt a b = js_lt b a"

definition js_le :: "jsnum \<Rightarrow> jsnum \<Rightarrow> bool" where
  "js_le a b = (a \<noteq> NaN \<and> b \<noteq> NaN \<and> \<not> js_lt b a)"

text \<open>\<open>Math.min\<close> and \<open>Math.max\<close> of two arguments: \<open>NaN\<close> if either is.\<close>

definition Math_min :: "jsnum \<Rightarrow> jsnum \<Rightarrow> jsnum" where
  "Math_min a b = (if a = NaN \<or> b = NaN then NaN else if js_lt b a then b else a)"

definition Math_max :: "jsnum \<Rightarrow> jsnum \<Rightarrow> jsnum" where
  "Math_max a b = (if a = NaN \<or> b = NaN then NaN else if js_lt a b then b else a)"

text \<open>Truthiness of a number (\<open>x || 0\<close>): \<open>0\<close> and \<open>NaN\<close> are falsy.\<close>

definition num_truthy :: "jsnum \<Rightarrow> bool" where
  "num_truthy a = (a \<noteq> NaN \<and> a \<noteq> Num 0)"

text \<open>Truthiness of a string-or-null value: \<open>null\<close>, \<open>undefined\<close> and \<open>""\<close> are falsy.\<close>

definition str_truthy :: "string option \<Rightarrow> bool" where
  "str_truthy s = (case s of None \<Rightarrow> False | Some v \<Rightarrow> v \<noteq> [])"

text \<open>
  A \<open>Date\<close> is its \<open>getTime()\<close> in milliseconds, an integer; \<open>None\<close> is the invalid date,
  whose \<open>getTime()\<close> is \<open>NaN\<close>.
\<close>

type_synonym date = "int option"

definition getTime :: "date \<Rightarrow> jsnum" where
  "getTime d = (case d of None \<Rightarrow> NaN | Some t \<Rightarrow> Num (of_int t))"

text \<open>
  \<open>Math.random()\<close>: the generator is the stream of the draws to come, each in \<open>[0, 1)\<close>;
  a call takes the first and leaves the rest.
\<close>

type_synonym rng = "nat \<Rightarrow> real"

definition Math_random :: "rng \<Rightarrow> real \<times> rng" where
  "Math_random g = (g 0, \<lambda>n. g (Suc n))"

text \<open>
  The value of a call to an \<open>async\<close> function that the caller does not \<open>await\<close>: a
  Promise object holding the result. The object is truthy whatever it holds, and it has
  no property \<open>lat\<close> or \<open>lon\<close>: reading one gives \<open>undefined\<close>, which arithmetic turns
  into \<open>NaN\<close>.
\<close>

datatype 'a promise = Promise 'a

definition promise_truthy :: "'a promise \<Rightarrow> bool" where
  "promise_truthy p = True"

definition promise_lat :: "'a promise \<Rightarrow> jsnum" where
  "promise_lat p = NaN"

definition promise_lon :: "'a promise \<Rightarrow> jsnum" where
  "promise_lon p = NaN"

section \<open>RealTimeDataHub: state estimation\<close>

record geo =
  lat :: jsnum
  lon :: jsnum

record velocity =
  speed :: jsnum
  heading :: jsnum

record kstate =
  position :: geo
  velocity :: velocity
  acceleration :: jsnum

record covariance =
  cov_position :: jsnum
  cov_velocity :: jsnum
  cov_acceleration :: jsnum

record processNoise =
  pn_position :: jsnum
  pn_velocity :: jsnum
  pn_acceleration :: jsnum

record measurementNoise =
  gps :: jsnum
  trackCircuit :: jsnum
  stationReport :: jsnum

record estimator =
  trainId :: string
  state :: kstate
  covariance :: covariance
  processNoise :: processNoise
  measurementNoise :: measurementNoise

text \<open>
  A normalized reading, as the three \<open>ingest...\<close> methods build it. One record carries
  the fields of the three kinds; a kind reads only its own.
\<close>

record reading =
  source :: string
  r_trainId :: "string option"
  r_timestamp :: date
  latitude :: jsnum
  longitude :: jsnum
  r_speed :: jsnum
  r_heading :: jsnum
  sectionId :: string
  occupied :: bool
  trainDetected :: "string option"
  stationId :: string
  event :: "string option"
  quality :: jsnum

text \<open>What \<open>fuseDataSources\<close> returns.\<close>

record fused =
  f_trainId :: string
  f_position :: geo
  f_speed :: jsnum
  f_heading :: jsnum
  confidence :: jsnum
  timestamp :: int

text \<open>An entry of \<open>activeTrains\<close>: the fused state with two more fields.\<close>

record trainState = fused +
  lastUpdate :: int
  dataQuality :: jsnum

record station_doc =
  st_latitude :: jsnum
  st_longitude :: jsnum

record hub =
  activeTrains :: "string \<rightharpoonup> trainState"
  stateEstimators :: "string \<rightharpoonup> estimator"
  trainDataBuffers :: "(string \<rightharpoonup> reading list) option"

definition initializeKalmanFilter :: "string \<Rightarrow> estimator" where
  "initializeKalmanFilter tid =
     \<lparr> trainId = tid,
       state = \<lparr> position = \<lparr> lat = Num 0, lon = Num 0 \<rparr>,
                 velocity = \<lparr> speed = Num 0, heading = Num 0 \<rparr>,
                 acceleration = Num 0 \<rparr>,
       covariance = \<lparr> cov_position = Num 10, cov_velocity = Num 5, cov_acceleration = Num 2 \<rparr>,
       processNoise = \<lparr> pn_position = Num (1 / 10), pn_velocity = Num (1 / 2),
                        pn_acceleration = Num 1 \<rparr>,
       measurementNoise = \<lparr> gps = Num 3, trackCircuit = Num 50, stationReport = Num 100 \<rparr> \<rparr>"

definition calculateKalmanGain :: "jsnum \<Rightarrow> jsnum \<Rightarrow> jsnum" where
  "calculateKalmanGain cov noise = js_div cov (js_add cov noise)"

text \<open>The merge \<open>x + weight * (m - x)\<close> that the three updates apply to a coordinate.\<close>

definition blend :: "jsnum \<Rightarrow> jsnum \<Rightarrow> jsnum \<Rightarrow> jsnum" where
  "blend x weight m = js_add x (js_mul weight (js_sub m x))"

definition updateWithGPS :: "kstate \<Rightarrow> reading \<Rightarrow> estimator \<Rightarrow> kstate" where
  "updateWithGPS st gpsData est =
     (let weight = calculateKalmanGain (cov_position (covariance est)) (gps (measurementNoise est))
      in st \<lparr> position := \<lparr> lat = blend (lat (position st)) weight (latitude gpsData),
                              lon = blend (lon (position st)) weight (longitude gpsData) \<rparr>,
              velocity := (velocity st) \<lparr> speed := blend (speed (velocity st)) weight (r_speed gpsData) \<rparr> \<rparr>)"

text \<open>
  \<open>getTrackSectionPosition\<close> is \<open>async\<close>: it draws two random numbers and its value is a
  Promise of the position.
\<close>

definition getTrackSectionPosition :: "rng \<Rightarrow> string \<Rightarrow> geo promise \<times> rng" where
  "getTrackSectionPosition g sid =
     (let (r1, g1) = Math_random g; (r2, g2) = Math_random g1
      in (Promise \<lparr> lat = Num (28.6139 + r1 * 0.1), lon = Num (77.2090 + r2 * 0.1) \<rparr>, g2))"

text \<open>
  \<open>getStationPosition\<close> is \<open>async\<close> too: a Promise of the station's coordinates, or of
  \<open>null\<close> when the lookup finds nothing or fails.
\<close>

definition getStationPosition :: "(string \<rightharpoonup> station_doc) \<Rightarrow> string \<Rightarrow> geo option promise" where
  "getStationPosition findById sid =
     Promise (case findById sid of
                None \<Rightarrow> None
              | Some s \<Rightarrow> Some \<lparr> lat = st_latitude s, lon = st_longitude s \<rparr>)"

text \<open>
  \<open>updateWithTrackCircuit\<close> calls \<open>getTrackSectionPosition\<close> without \<open>await\<close>, so
  \<open>sectionPosition\<close> is the Promise itself.
\<close>

definition updateWithTrackCircuit :: "rng \<Rightarrow> kstate \<Rightarrow> reading \<Rightarrow> estimator \<Rightarrow> kstate \<times> rng" where
  "updateWithTrackCircuit g st circuitData est =
     (if occupied circuitData \<and> str_truthy (trainDetected circuitData) then
        (let (sectionPosition, g') = getTrackSectionPosition g (sectionId circuitData)
         in if promise_truthy sectionPosition then
              (let weight = calculateKalmanGain (cov_position (covariance est))
                                                (trackCircuit (measurementNoise est))
               in (st \<lparr> position := \<lparr> lat = blend (lat (position st)) weight (promise_lat sectionPosition),
                                        lon = blend (lon (position st)) weight (promise_lon sectionPosition) \<rparr> \<rparr>,
                   g'))
            else (st, g'))
      else (st, g))"

definition updateWithStationReport ::
  "(string \<rightharpoonup> station_doc) \<Rightarrow> kstate \<Rightarrow> reading \<Rightarrow> estimator \<Rightarrow> kstate" where
  "updateWithStationReport findById st reportData est =
     (let stationPosition = getStationPosition findById (stationId reportData)
      in if promise_truthy stationPosition then
           (let weight = calculateKalmanGain (cov_position (covariance est))
                                             (stationReport (measurementNoise est))
            in st \<lparr> position := \<lparr> lat = blend (lat (position st)) weight (promise_lat stationPosition),
                                    lon = blend (lon (position st)) weight (promise_lon stationPosition) \<rparr>,
                    velocity := (velocity st)
                      \<lparr> speed := (if event reportData = Some ''ARRIVAL'' \<or> event reportData = Some ''DEPARTURE''
                                  then Num 0 else speed (velocity st)) \<rparr> \<rparr>)
         else st)"

definition calculateConfidence :: "estimator \<Rightarrow> jsnum" where
  "calculateConfidence est =
     (let positionConfidence =
            js_sub (Num 1) (Math_min (js_div (cov_position (covariance est)) (Num 100)) (Num 1));
          velocityConfidence =
            js_sub (Num 1) (Math_min (js_div (cov_velocity (covariance est)) (Num 50)) (Num 1))
      in js_div (js_add positionConfidence velocityConfidence) (Num 2))"

text \<open>The \<open>for\<close> loop of \<open>fuseDataSources\<close> over the readings, with its \<open>switch\<close>.\<close>

fun fuse_loop ::
  "(string \<rightharpoonup> station_doc) \<Rightarrow> estimator \<Rightarrow> rng \<Rightarrow> kstate \<Rightarrow> reading list \<Rightarrow> kstate \<times> rng" where
  "fuse_loop findById est g fusedState [] = (fusedState, g)"
| "fuse_loop findById est g fusedState (d # ds) =
     (if source d = ''GPS'' then
        fuse_loop findById est g (updateWithGPS fusedState d est) ds
      else if source d = ''TRACK_CIRCUIT'' then
        (let (s', g') = updateWithTrackCircuit g fusedState d est
         in fuse_loop findById est g' s' ds)
      else if source d = ''STATION_REPORT'' then
        fuse_loop findById est g (updateWithStationReport findById fusedState d est) ds
      else fuse_loop findById est g fusedState ds)"

text \<open>
  \<open>fuseDataSources\<close>: the estimator with its new state, the fused output, and the
  generator left. \<open>now\<close> is the clock read for the output's timestamp.
\<close>

definition fuseDataSources ::
  "(string \<rightharpoonup> station_doc) \<Rightarrow> rng \<Rightarrow> int \<Rightarrow> estimator \<Rightarrow> reading list \<Rightarrow> estimator \<times> fused \<times> rng" where
  "fuseDataSources findById g now est newDataArray =
     (let (fusedState, g') = fuse_loop findById est g (state est) newDataArray;
          est' = est \<lparr> state := fusedState \<rparr>
      in (est',
          \<lparr> f_trainId = trainId est',
            f_position = position fusedState,
            f_speed = speed (velocity fusedState),
            f_heading = heading (velocity fusedState),
            confidence = calculateConfidence est',
            timestamp = now \<rparr>,
          g'))"

definition calculateOverallQuality :: "reading list \<Rightarrow> jsnum" where
  "calculateOverallQuality dataArray =
     (if dataArray = [] then Num 0
      else js_div (foldl (\<lambda>sum d. js_add sum (if num_truthy (quality d) then quality d else Num 0))
                         (Num 0) dataArray)
                  (Num (real (length dataArray))))"

text \<open>
  \<open>updateTrainState\<close>: the estimator of the train is created on its first batch. The
  clock is read once by the fusion and once more for \<open>lastUpdate\<close>.
\<close>

definition updateTrainState ::
  "(string \<rightharpoonup> station_doc) \<Rightarrow> rng \<Rightarrow> int \<Rightarrow> int \<Rightarrow> hub \<Rightarrow> string \<Rightarrow> reading list \<Rightarrow> hub \<times> fused \<times> rng" where
  "updateTrainState findById g now now' h tid newData =
     (let est = (case stateEstimators h tid of
                   None \<Rightarrow> initializeKalmanFilter tid
                 | Some e \<Rightarrow> e);
          (est', fusedState, g') = fuseDataSources findById g now est newData
      in (h \<lparr> stateEstimators := (stateEstimators h)(tid \<mapsto> est'),
               activeTrains := (activeTrains h)(tid \<mapsto>
                  fused.extend fusedState
                    \<lparr> lastUpdate = now', dataQuality = calculateOverallQuality newData \<rparr>) \<rparr>,
          fusedState, g'))"

text \<open>The hub as its constructor leaves it. \<open>trainDataBuffers\<close> is never assigned.\<close>

definition new_hub :: hub where
  "new_hub = \<lparr> activeTrains = Map.empty, stateEstimators = Map.empty, trainDataBuffers = None \<rparr>"

text \<open>
  One fusion update as the hub receives it: the train, its batch of readings, and what
  the update will observe of the outside (station table, random draws, two clock reads).
\<close>

record fusion_update =
  u_findById :: "string \<rightharpoonup> station_doc"
  u_rng :: rng
  u_now :: int
  u_now' :: int
  u_train :: string
  u_data :: "reading list"

definition apply_update :: "hub \<Rightarrow> fusion_update \<Rightarrow> hub \<times> fused \<times> rng" where
  "apply_update h u =
     updateTrainState (u_findById u) (u_rng u) (u_now u) (u_now' u) h (u_train u) (u_data u)"

definition run_updates :: "hub \<Rightarrow> fusion_update list \<Rightarrow> hub" where
  "run_updates h us = foldl (\<lambda>h u. fst (apply_update h u)) h us"

text \<open>
  \<open>getTrainDataBuffer\<close>: \<open>this.trainDataBuffers?.get(trainId) || []\<close>. A stored buffer
  is an array, hence truthy.
\<close>

definition getTrainDataBuffer :: "hub \<Rightarrow> string \<Rightarrow> reading list" where
  "getTrainDataBuffer h tid =
     (case trainDataBuffers h of
        None \<Rightarrow> []
      | Some m \<Rightarrow> (case m tid of None \<Rightarrow> [] | Some b \<Rightarrow> b))"

text \<open>
  \<open>processNormalizedData\<close>: a reading without a truthy \<open>trainId\<close> is dropped. The
  \<open>push\<close> writes into the stored buffer when there is one (the array is shared),
  into a fresh array otherwise. \<open>now0\<close> is the clock read for the five-minute window.
\<close>

definition processNormalizedData ::
  "(string \<rightharpoonup> station_doc) \<Rightarrow> rng \<Rightarrow> int \<Rightarrow> int \<Rightarrow> int \<Rightarrow> hub \<Rightarrow> reading \<Rightarrow> hub \<times> rng" where
  "processNormalizedData findById g now0 now now' h data =
     (case r_trainId data of
        None \<Rightarrow> (h, g)
      | Some tid \<Rightarrow>
          if tid = [] then (h, g)
          else
            (let existingData = getTrainDataBuffer h tid @ [data];
                 h1 = (case trainDataBuffers h of
                         None \<Rightarrow> h
                       | Some m \<Rightarrow> (case m tid of
                                      None \<Rightarrow> h
                                    | Some b \<Rightarrow> h \<lparr> trainDataBuffers := Some (m(tid \<mapsto> existingData)) \<rparr>));
                 fiveMinutesAgo = Num (of_int (now0 - 5 * 60 * 1000));
                 recentData = filter (\<lambda>d. js_gt (getTime (r_timestamp d)) fiveMinutesAgo) existingData;
                 (h2, fusedState, g') = updateTrainState findById g now now' h1 tid recentData
             in (h2, g')))"

text \<open>The four fields of a fused state that a reader of the estimate looks at.\<close>

definition fused_core :: "fused \<Rightarrow> geo \<times> jsnum \<times> jsnum \<times> jsnum" where
  "fused_core f = (f_position f, f_speed f, f_heading f, confidence f)"

section \<open>RealTimeDataHub: data quality\<close>

text \<open>
  The raw positional reading as \<open>calculateGPSQuality\<close> reads it: \<open>accuracy\<close> and
  \<open>speed\<close> through a numeric comparison (a missing field compares as \<open>NaN\<close>), and
  \<open>new Date(gpsData.timestamp)\<close>.
\<close>

record gpsData =
  g_accuracy :: jsnum
  g_speed :: jsnum
  g_timestamp :: date

definition calculateGPSQuality :: "int \<Rightarrow> gpsData \<Rightarrow> jsnum" where
  "calculateGPSQuality now d =
     (let quality = Num 1;
          quality = (if js_gt (g_accuracy d) (Num 10) then js_mul quality (Num (8 / 10)) else quality);
          quality = (if js_gt (g_accuracy d) (Num 50) then js_mul quality (Num (6 / 10)) else quality);
          quality = (if js_gt (g_speed d) (Num 200) then js_mul quality (Num (5 / 10)) else quality);
          age = js_sub (Num (of_int now)) (getTime (g_timestamp d));
          quality = (if js_gt age (Num 30000) then js_mul quality (Num (7 / 10)) else quality)
      in Math_max (Num (1 / 10)) quality)"

section \<open>RealTimeDataHub: conflict detection\<close>

text \<open>
  A conflict as the detectors push it. The human-readable \<open>description\<close> is left out;
  \<open>c_distance\<close> is present in safety-distance conflicts only.
\<close>

datatype location = AtStation string | AtPosition geo

record conflict =
  c_type :: string
  severity :: string
  c_trains :: "string list"
  c_distance :: "jsnum option"
  location :: location
  recommendedAction :: string

subsection \<open>Great-circle distance\<close>

fun Math_sin :: "jsnum \<Rightarrow> jsnum" where
  "Math_sin (Num x) = Num (sin x)"
| "Math_sin _ = NaN"

fun Math_cos :: "jsnum \<Rightarrow> jsnum" where
  "Math_cos (Num x) = Num (cos x)"
| "Math_cos _ = NaN"

fun Math_sqrt :: "jsnum \<Rightarrow> jsnum" where
  "Math_sqrt (Num x) = (if x < 0 then NaN else Num (sqrt x))"
| "Math_sqrt PosInf = PosInf"
| "Math_sqrt _ = NaN"

text \<open>The angle of the point \<open>(x, y)\<close>, in \<open>(-pi, pi]\<close>; \<open>0\<close> at the origin.\<close>

definition atan2 :: "real \<Rightarrow> real \<Rightarrow> real" where
  "atan2 y x =
     (if 0 < x then arctan (y / x)
      else if x < 0 then (if 0 \<le> y then arctan (y / x) + pi else arctan (y / x) - pi)
      else if 0 < y then pi / 2
      else if y < 0 then - (pi / 2)
      else 0)"

fun Math_atan2 :: "jsnum \<Rightarrow> jsnum \<Rightarrow> jsnum" where
  "Math_atan2 NaN _ = NaN"
| "Math_atan2 _ NaN = NaN"
| "Math_atan2 (Num y) (Num x) = Num (atan2 y x)"
| "Math_atan2 (Num y) PosInf = Num 0"
| "Math_atan2 (Num y) NegInf = (if 0 \<le> y then Num pi else Num (- pi))"
| "Math_atan2 PosInf (Num x) = Num (pi / 2)"
| "Math_atan2 NegInf (Num x) = Num (- (pi / 2))"
| "Math_atan2 PosInf PosInf = Num (pi / 4)"
| "Math_atan2 PosInf NegInf = Num (3 * pi / 4)"
| "Math_atan2 NegInf PosInf = Num (- (pi / 4))"
| "Math_atan2 NegInf NegInf = Num (- (3 * pi / 4))"

text \<open>\<open>calculateDistance\<close>: the haversine formula, in kilometres.\<close>

definition calculateDistance :: "geo \<Rightarrow> geo \<Rightarrow> jsnum" where
  "calculateDistance pos1 pos2 =
     (let R = Num 6371;
          dLat = js_div (js_mul (js_sub (lat pos2) (lat pos1)) (Num pi)) (Num 180);
          dLon = js_div (js_mul (js_sub (lon pos2) (lon pos1)) (Num pi)) (Num 180);
          a = js_add
                (js_mul (Math_sin (js_div dLat (Num 2))) (Math_sin (js_div dLat (Num 2))))
                (js_mul
                   (js_mul
                      (js_mul (Math_cos (js_div (js_mul (lat pos1) (Num pi)) (Num 180)))
                              (Math_cos (js_div (js_mul (lat pos2) (Num pi)) (Num 180))))
                      (Math_sin (js_div dLon (Num 2))))
                   (Math_sin (js_div dLon (Num 2))));
          c = js_mul (Num 2) (Math_atan2 (Math_sqrt a) (Math_sqrt (js_sub (Num 1) a)))
      in js_mul R c)"

subsection \<open>Safety distance\<close>

definition SAFETY_DISTANCE_KM :: jsnum where
  "SAFETY_DISTANCE_KM = Num 2"

definition safety_conflict :: "trainState \<Rightarrow> trainState \<Rightarrow> jsnum \<Rightarrow> conflict" where
  "safety_conflict train1 train2 distance =
     \<lparr> c_type = ''SAFETY_DISTANCE_VIOLATION'',
       severity = ''CRITICAL'',
       c_trains = [f_trainId train1, f_trainId train2],
       c_distance = Some distance,
       location = AtPosition (f_position train1),
       recommendedAction = ''EMERGENCY_HALT'' \<rparr>"

text \<open>The inner loop: \<open>train1\<close> against each later train.\<close>

fun safety_inner :: "trainState \<Rightarrow> trainState list \<Rightarrow> conflict list" where
  "safety_inner train1 [] = []"
| "safety_inner train1 (train2 # rest) =
     (let distance = calculateDistance (f_position train1) (f_position train2)
      in (if js_lt distance SAFETY_DISTANCE_KM then [safety_conflict train1 train2 distance] else [])
         @ safety_inner train1 rest)"

fun detectSafetyDistanceViolations :: "trainState list \<Rightarrow> conflict list" where
  "detectSafetyDistanceViolations [] = []"
| "detectSafetyDistanceViolations (train1 # rest) =
     safety_inner train1 rest @ detectSafetyDistanceViolations rest"

subsection \<open>Resource over-allocation\<close>

text \<open>The train document of the database, as far as \<open>getCurrentStation\<close> reads it.\<close>

record train_doc =
  currentStation :: "string option"

text \<open>
  \<open>getCurrentStation\<close>: \<open>train?.currentStatus?.currentStation || null\<close>, and \<open>null\<close>
  when the lookup fails.
\<close>

definition getCurrentStation :: "(string \<rightharpoonup> train_doc) \<Rightarrow> string \<Rightarrow> string option" where
  "getCurrentStation findById tid =
     (case findById tid of
        None \<Rightarrow> None
      | Some t \<Rightarrow> (if str_truthy (currentStation t) then currentStation t else None))"

text \<open>
  The key \<open>`${currentStation}_${bucket}`\<close> of \<open>platformOccupancy\<close> is kept as the pair
  of its two parts: the bucket is printed in decimal digits, so the string determines
  both. A conflict holds the array of the key, not a copy of it: the loop records the
  key, and the train lists are read from the final map.
\<close>

type_synonym occupancy_key = "string \<times> int"

definition occupancy_list :: "(occupancy_key \<rightharpoonup> string list) \<Rightarrow> occupancy_key \<Rightarrow> string list" where
  "occupancy_list occ key = (case occ key of None \<Rightarrow> [] | Some l \<Rightarrow> l)"

text \<open>
  One iteration of the loop, for a train and the clock value that \<open>Date.now()\<close> returns
  in its iteration.
\<close>

definition overallocation_step ::
  "(string \<rightharpoonup> train_doc) \<Rightarrow> (occupancy_key \<rightharpoonup> string list) \<times> occupancy_key list
     \<Rightarrow> trainState \<times> int \<Rightarrow> (occupancy_key \<rightharpoonup> string list) \<times> occupancy_key list" where
  "overallocation_step findById acc tn =
     (case acc of (platformOccupancy, conflicts) \<Rightarrow>
      case tn of (train, now) \<Rightarrow>
        (case getCurrentStation findById (f_trainId train) of
           None \<Rightarrow> (platformOccupancy, conflicts)
         | Some station \<Rightarrow>
             if js_lt (f_speed train) (Num 5) then
               (let key = (station, now div (10 * 60 * 1000));
                    occ1 = (if platformOccupancy key = None then platformOccupancy(key \<mapsto> [])
                            else platformOccupancy);
                    occ2 = occ1(key \<mapsto> occupancy_list occ1 key @ [f_trainId train])
                in if 2 < length (occupancy_list occ2 key)
                   then (occ2, conflicts @ [key])
                   else (occ2, conflicts))
             else (platformOccupancy, conflicts)))"

definition overallocation_conflict ::
  "(occupancy_key \<rightharpoonup> string list) \<Rightarrow> occupancy_key \<Rightarrow> conflict" where
  "overallocation_conflict occ key =
     \<lparr> c_type = ''RESOURCE_OVERALLOCATION'',
       severity = ''MEDIUM'',
       c_trains = occupancy_list occ key,
       c_distance = None,
       location = AtStation (fst key),
       recommendedAction = ''STAGGER_ARRIVALS'' \<rparr>"

definition detectResourceOverallocation ::
  "(string \<rightharpoonup> train_doc) \<Rightarrow> (trainState \<times> int) list \<Rightarrow> conflict list" where
  "detectResourceOverallocation findById trains =
     (case foldl (overallocation_step findById) (Map.empty, []) trains of
        (platformOccupancy, conflicts) \<Rightarrow> map (overallocation_conflict platformOccupancy) conflicts)"

text \<open>A train counts for the check when it has a current station and moves slower than 5.\<close>

definition near_stationary_at :: "(string \<rightharpoonup> train_doc) \<Rightarrow> string \<Rightarrow> trainState \<Rightarrow> bool" where
  "near_stationary_at findById station train =
     (getCurrentStation findById (f_trainId train) = Some station \<and> js_lt (f_speed train) (Num 5))"

text \<open>
  The key under which an iteration of the over-allocation loop files its train, if it
  files it at all, and the trains filed under a key, in scan order.
\<close>

definition entry_key :: "(string \<rightharpoonup> train_doc) \<Rightarrow> trainState \<times> int \<Rightarrow> occupancy_key option" where
  "entry_key findById tn =
     (case getCurrentStation findById (f_trainId (fst tn)) of
        None \<Rightarrow> None
      | Some station \<Rightarrow>
          if js_lt (f_speed (fst tn)) (Num 5) then Some (station, snd tn div 600000) else None)"

definition ids_for :: "(string \<rightharpoonup> train_doc) \<Rightarrow> occupancy_key \<Rightarrow> (trainState \<times> int) list \<Rightarrow> string list" where
  "ids_for db k es = map (\<lambda>e. f_trainId (fst e)) (filter (\<lambda>e. entry_key db e = Some k) es)"

section \<open>AlgorithmicBrain: schedules\<close>

text \<open>
  A schedule and its stops. The dates of a schedule are valid dates, kept as their
  \<open>getTime()\<close> in milliseconds; delays are whole minutes.
\<close>

record stationStop =
  stop_stationId :: string
  arrivalTime :: int
  departureTime :: int
  isHalt :: bool
  haltDuration :: int

record schedule =
  s_trainId :: string
  trainNumber :: string
  trainType :: string
  priority :: int
  s_departureTime :: int
  stations :: "stationStop list"
  totalDelay :: int
  halts :: nat

text \<open>An individual of the genetic algorithm; \<open>trains\<close> is a \<open>Map\<close>, in insertion order.\<close>

record individual =
  ind_id :: string
  ind_trains :: "(string \<times> schedule) list"
  fitness :: jsnum
  ind_conflicts :: nat

subsection \<open>Conflict count\<close>

text \<open>
  \<open>detectConflicts\<close>: a stop whose key \<open>`${stationId}_${arrivalTime.getTime()}`\<close> is
  already in \<open>stationOccupancy\<close> counts as a conflict. The key is kept as the pair of
  its parts.
\<close>

definition conflict_stop_step ::
  "string \<Rightarrow> (string \<times> int \<rightharpoonup> string) \<times> nat \<Rightarrow> stationStop \<Rightarrow> (string \<times> int \<rightharpoonup> string) \<times> nat" where
  "conflict_stop_step tid acc stop =
     (case acc of (stationOccupancy, conflicts) \<Rightarrow>
        (let key = (stop_stationId stop, arrivalTime stop)
         in if stationOccupancy key \<noteq> None then (stationOccupancy, Suc conflicts)
            else (stationOccupancy(key \<mapsto> tid), conflicts)))"

definition detectConflicts :: "individual \<Rightarrow> nat" where
  "detectConflicts sched =
     (let trainSchedules = map snd (ind_trains sched)
      in snd (foldl (\<lambda>acc trainSchedule.
                       foldl (conflict_stop_step (s_trainId trainSchedule)) acc (stations trainSchedule))
                    (Map.empty, 0) trainSchedules))"

subsection \<open>Discrete-event simulation\<close>

record sim_event =
  e_type :: string
  e_time :: int
  e_trainId :: string
  e_stationId :: string

record sim_metrics =
  totalJourneyTime :: jsnum
  averageDelay :: jsnum
  onTimePerformance :: jsnum
  m_conflicts :: nat
  trackUtilization :: jsnum

record simulation =
  events :: "sim_event list"
  currentTime :: int
  metrics :: sim_metrics

definition stop_events :: "schedule \<Rightarrow> stationStop \<Rightarrow> sim_event list" where
  "stop_events trainSchedule stop =
     \<lparr> e_type = ''ARRIVAL'', e_time = arrivalTime stop,
       e_trainId = s_trainId trainSchedule, e_stationId = stop_stationId stop \<rparr>
     # (if isHalt stop
        then [\<lparr> e_type = ''DEPARTURE'', e_time = departureTime stop,
                e_trainId = s_trainId trainSchedule, e_stationId = stop_stationId stop \<rparr>]
        else [])"

text \<open>
  The body of the loop over the sorted events, on the pair of \<open>totalDelay\<close> (in
  milliseconds) and \<open>onTimeCount\<close>.
\<close>

definition event_step :: "jsnum \<times> nat \<Rightarrow> sim_event \<Rightarrow> jsnum \<times> nat" where
  "event_step acc ev =
     (case acc of (totalDelayMs, onTimeCount) \<Rightarrow>
        if e_type ev = ''ARRIVAL'' then
          (let expectedTime = e_time ev;
               actualTime = e_time ev;
               delay = Math_max (Num 0) (Num (of_int (actualTime - expectedTime)))
           in (js_add totalDelayMs delay,
               if js_le delay (Num (5 * 60 * 1000)) then Suc onTimeCount else onTimeCount))
        else (totalDelayMs, onTimeCount))"

text \<open>
  \<open>runDiscreteEventSimulation\<close>. The events are sorted by time with a stable sort, as
  \<open>Array.prototype.sort\<close> is; \<open>now\<close> is the clock read for \<open>currentTime\<close>.
\<close>

definition runDiscreteEventSimulation :: "int \<Rightarrow> individual \<Rightarrow> simulation" where
  "runDiscreteEventSimulation now sched =
     (let trainSchedules = map snd (ind_trains sched);
          generated = concat (map (\<lambda>trainSchedule.
                        concat (map (stop_events trainSchedule) (stations trainSchedule))) trainSchedules);
          sorted = sort_key e_time generated;
          (totalDelayMs, onTimeCount) = foldl event_step (Num 0, 0) sorted
      in \<lparr> events = sorted,
           currentTime = now,
           metrics =
             \<lparr> totalJourneyTime = Num 0,
               averageDelay =
                 js_div (js_div totalDelayMs (Num (real (length trainSchedules)))) (Num (60 * 1000)),
               onTimePerformance =
                 js_mul (js_div (Num (real onTimeCount)) (Num (real (length sorted)))) (Num 100),
               m_conflicts = detectConflicts sched,
               trackUtilization = Num 0 \<rparr> \<rparr>)"

subsection \<open>Real-time reconciliation\<close>

definition shiftStop :: "int \<Rightarrow> stationStop \<Rightarrow> stationStop" where
  "shiftStop delayMs stop =
     stop \<lparr> arrivalTime := arrivalTime stop + delayMs, departureTime := departureTime stop + delayMs \<rparr>"

text \<open>
  \<open>rightShiftSchedule\<close> returns a shallow copy: the copy has the new total delay, and
  the loop writes the new times into the stop objects, which the copy shares with the
  schedule that was passed in. \<open>shifted_in_place\<close> is that schedule after the call.
\<close>

definition rightShiftSchedule :: "schedule \<Rightarrow> int \<Rightarrow> schedule" where
  "rightShiftSchedule sch delayMinutes =
     (let delayMs = delayMinutes * 60 * 1000
      in sch \<lparr> stations := map (shiftStop delayMs) (stations sch),
               totalDelay := totalDelay sch + delayMinutes \<rparr>)"

definition shifted_in_place :: "schedule \<Rightarrow> int \<Rightarrow> schedule" where
  "shifted_in_place sch delayMinutes =
     (let delayMs = delayMinutes * 60 * 1000
      in sch \<lparr> stations := map (shiftStop delayMs) (stations sch) \<rparr>)"

definition localRepair :: "schedule \<Rightarrow> schedule \<Rightarrow> schedule" where
  "localRepair affectedSchedule conflictingSchedule = affectedSchedule"

text \<open>\<open>Map.prototype.set\<close> on the entries of a \<open>Map\<close>, in insertion order.\<close>

fun map_set :: "('k \<times> 'v) list \<Rightarrow> 'k \<Rightarrow> 'v \<Rightarrow> ('k \<times> 'v) list" where
  "map_set [] k v = [(k, v)]"
| "map_set ((k', v') # rest) k v =
     (if k' = k then (k, v) # rest else (k', v') # map_set rest k v)"

datatype error = NoScheduleFound string

text \<open>
  What \<open>handleRealTimeUpdate\<close> returns; the processing time and the explanation text
  are left out.
\<close>

record update_result =
  updatedSchedule :: schedule
  affectedSchedules :: "(string \<times> schedule) list"

text \<open>
  \<open>handleRealTimeUpdate\<close> on the map \<open>this.currentSchedule\<close>, which it returns
  updated. Distinct trains hold distinct schedule objects; the one sharing is that of
  \<open>rightShiftSchedule\<close>, so that the schedule stored for the train already shows the
  shifted stops while the affected trains are repaired. \<open>currentPosition\<close> is not used.
\<close>

definition handleRealTimeUpdate ::
  "(string \<rightharpoonup> schedule) \<Rightarrow> string \<Rightarrow> geo \<Rightarrow> int \<Rightarrow> string list
     \<Rightarrow> error + (string \<rightharpoonup> schedule) \<times> update_result" where
  "handleRealTimeUpdate currentSchedule tid currentPosition currentDelay affectedTrains =
     (case currentSchedule tid of
        None \<Rightarrow> Inl (NoScheduleFound tid)
      | Some sch \<Rightarrow>
          (let updated = rightShiftSchedule sch currentDelay;
               store1 = currentSchedule(tid \<mapsto> shifted_in_place sch currentDelay);
               affected = foldl (\<lambda>acc affectedTrainId.
                                   case store1 affectedTrainId of
                                     None \<Rightarrow> acc
                                   | Some affectedSchedule \<Rightarrow>
                                       map_set acc affectedTrainId (localRepair affectedSchedule updated))
                                [] affectedTrains;
               store2 = store1(tid \<mapsto> updated);
               store3 = foldl (\<lambda>m entry. m(fst entry \<mapsto> snd entry)) store2 affected
           in Inr (store3, \<lparr> updatedSchedule = updated, affectedSchedules = affected \<rparr>)))"

text \<open>The schedules of a train after each of a sequence of right-shifts, the first included.\<close>

fun successive_shifts :: "schedule \<Rightarrow> int list \<Rightarrow> schedule list" where
  "successive_shifts sch [] = [sch]"
| "successive_shifts sch (d # ds) = sch # successive_shifts (rightShiftSchedule sch d) ds"

section \<open>AITrafficOptimizer: performance metrics\<close>

record opt_entry =
  oe_trainId :: string
  scheduledTime :: jsnum
  actualTime :: jsnum

record perf_metrics =
  throughput :: jsnum
  avgDelay :: jsnum
  punctuality :: jsnum
  utilization :: jsnum
  pm_conflicts :: jsnum
  safetyScore :: jsnum

datatype js_error = TypeError string

text \<open>
  \<open>calculatePerformanceMetrics\<close>, where \<open>trains\<close> is the list of the train ids. An
  empty schedule returns the zero metrics at once. A schedule with entries reaches the
  call of \<open>this.calculateSectionUtilization\<close>, a method that no class defines.
\<close>

definition calculatePerformanceMetrics :: "opt_entry list \<Rightarrow> string list \<Rightarrow> js_error + perf_metrics" where
  "calculatePerformanceMetrics sched trains =
     (let metrics = \<lparr> throughput = Num 0, avgDelay = Num 0, punctuality = Num 0,
                       utilization = Num 0, pm_conflicts = Num 0, safetyScore = Num 100 \<rparr>
      in if sched = [] then Inr metrics
         else Inl (TypeError ''this.calculateSectionUtilization is not a function''))"

section \<open>Sample data\<close>

text \<open>
  A positional reading of train 12951 and an occupancy reading of a section in which
  the track circuit detects train 12002, taken one second earlier.
\<close>

definition sample_gps :: reading where
  "sample_gps =
     \<lparr> source = ''GPS'', r_trainId = Some ''12951'', r_timestamp = Some 2000,
       latitude = Num 19, longitude = Num 72, r_speed = Num 80, r_heading = Num 0,
       sectionId = [], occupied = False, trainDetected = None,
       stationId = [], event = None, quality = Num 1 \<rparr>"

definition sample_circuit :: reading where
  "sample_circuit =
     \<lparr> source = ''TRACK_CIRCUIT'', r_trainId = None, r_timestamp = Some 1000,
       latitude = NaN, longitude = NaN, r_speed = NaN, r_heading = NaN,
       sectionId = ''SEC-7'', occupied = True, trainDetected = Some ''12002'',
       stationId = [], event = None, quality = Num (1 / 2) \<rparr>"

text \<open>An active train at a position given in degrees, running at 60 km/h.\<close>

definition train_at :: "string \<Rightarrow> real \<Rightarrow> real \<Rightarrow> trainState" where
  "train_at tid la lo =
     \<lparr> f_trainId = tid, f_position = \<lparr> lat = Num la, lon = Num lo \<rparr>, f_speed = Num 60,
       f_heading = Num 0, confidence = Num (9 / 10), timestamp = 0,
       lastUpdate = 0, dataQuality = Num 1 \<rparr>"

text \<open>
  A scan of five active trains, each with the clock value of its iteration: three of them
  stand at NDLS, one runs through it at 90 km/h, one stands at BCT.
\<close>

definition train_moving :: "string \<Rightarrow> real \<Rightarrow> trainState" where
  "train_moving tid v = (train_at tid 28 77) \<lparr> f_speed := Num v \<rparr>"

definition sample_train_docs :: "string \<rightharpoonup> train_doc" where
  "sample_train_docs =
     [''12951'' \<mapsto> \<lparr> currentStation = Some ''NDLS'' \<rparr>,
      ''12002'' \<mapsto> \<lparr> currentStation = Some ''NDLS'' \<rparr>,
      ''12301'' \<mapsto> \<lparr> currentStation = Some ''NDLS'' \<rparr>,
      ''12627'' \<mapsto> \<lparr> currentStation = Some ''NDLS'' \<rparr>,
      ''11077'' \<mapsto> \<lparr> currentStation = Some ''BCT'' \<rparr>]"

definition sample_scan :: "(trainState \<times> int) list" where
  "sample_scan =
     [(train_moving ''12951'' 0, 1200000), (train_moving ''11077'' 2, 1200004),
      (train_moving ''12002'' 4, 1200009), (train_moving ''12627'' 90, 1200013),
      (train_moving ''12301'' 3, 1799999)]"

text \<open>
  Two schedules: an express of priority 1 that calls at NDLS and passes MTJ ninety
  minutes after its start, and a passenger train of priority 4 that reaches MTJ fifteen
  minutes after the express. \<open>as_individual\<close> puts schedules in a \<open>trains\<close> map.
\<close>

definition sample_express :: schedule where
  "sample_express =
     \<lparr> s_trainId = ''12951'', trainNumber = ''12951'', trainType = ''EXPRESS'', priority = 1,
       s_departureTime = 0,
       stations = [\<lparr> stop_stationId = ''NDLS'', arrivalTime = 0, departureTime = 300000,
                      isHalt = True, haltDuration = 5 \<rparr>,
                   \<lparr> stop_stationId = ''MTJ'', arrivalTime = 5400000, departureTime = 5400000,
                      isHalt = False, haltDuration = 0 \<rparr>],
       totalDelay = 0, halts = 1 \<rparr>"

definition sample_passenger :: schedule where
  "sample_passenger =
     \<lparr> s_trainId = ''51234'', trainNumber = ''51234'', trainType = ''PASSENGER'', priority = 4,
       s_departureTime = 4000000,
       stations = [\<lparr> stop_stationId = ''MTJ'', arrivalTime = 6300000, departureTime = 6900000,
                      isHalt = True, haltDuration = 10 \<rparr>],
       totalDelay = 0, halts = 1 \<rparr>"

definition sample_store :: "string \<rightharpoonup> schedule" where
  "sample_store = [''12951'' \<mapsto> sample_express, ''51234'' \<mapsto> sample_passenger]"

definition as_individual :: "schedule list \<Rightarrow> individual" where
  "as_individual scheds =
     \<lparr> ind_id = ''schedule_0'', ind_trains = map (\<lambda>s. (s_trainId s, s)) scheds,
       fitness = Num 0, ind_conflicts = 0 \<rparr>"

section \<open>Invariant of the estimators\<close>

text \<open>The covariance record that \<open>initializeKalmanFilter\<close> writes.\<close>

definition initial_covariance :: covariance where
  "initial_covariance = \<lparr> cov_position = Num 10, cov_velocity = Num 5, cov_acceleration = Num 2 \<rparr>"

text \<open>Invariant of the hub: every stored estimator still has its initial covariance.\<close>

definition estimators_initial_cov :: "hub \<Rightarrow> bool" where
  "estimators_initial_cov h =
     (\<forall>tid e. stateEstimators h tid = Some e \<longrightarrow> covariance e = initial_covariance)"

section \<open>Properties of the state estimator\<close>

lemma fuseDataSources_covariance:
  "covariance (fst (fuseDataSources f g now est rs)) = covariance est"
  by (simp add: fuseDataSources_def Let_def split: prod.splits)

lemma initializeKalmanFilter_covariance:
  "covariance (initializeKalmanFilter tid) = initial_covariance"
  by (simp add: initializeKalmanFilter_def initial_covariance_def)

lemma calculateConfidence_initial:
  "covariance est = initial_covariance \<Longrightarrow> calculateConfidence est = Num (9 / 10)"
  by (simp add: calculateConfidence_def initial_covariance_def Math_min_def js_sub_def Let_def)

lemma apply_update_keeps_cov:
  assumes "estimators_initial_cov h"
  shows "estimators_initial_cov (fst (apply_update h u))"
proof -
  let ?est = "case stateEstimators h (u_train u) of
                None \<Rightarrow> initializeKalmanFilter (u_train u) | Some e \<Rightarrow> e"
  have c: "covariance ?est = initial_covariance"
    using assms
    by (auto simp: estimators_initial_cov_def initializeKalmanFilter_covariance split: option.splits)
  have "covariance (fst (fuseDataSources (u_findById u) (u_rng u) (u_now u) ?est (u_data u)))
          = initial_covariance"
    using c by (simp add: fuseDataSources_covariance)
  then show ?thesis
    using assms
    by (auto simp: estimators_initial_cov_def apply_update_def updateTrainState_def Let_def
             split: prod.splits)
qed

lemma run_updates_keeps_cov:
  "estimators_initial_cov h \<Longrightarrow> estimators_initial_cov (run_updates h us)"
  unfolding run_updates_def
  by (induction us arbitrary: h) (simp_all add: apply_update_keeps_cov)

lemma new_hub_cov: "estimators_initial_cov new_hub"
  by (simp add: estimators_initial_cov_def new_hub_def)

lemma apply_update_confidence:
  assumes "estimators_initial_cov h"
  shows "confidence (fst (snd (apply_update h u))) = Num (9 / 10)"
proof -
  let ?est = "case stateEstimators h (u_train u) of
                None \<Rightarrow> initializeKalmanFilter (u_train u) | Some e \<Rightarrow> e"
  have c: "covariance ?est = initial_covariance"
    using assms
    by (auto simp: estimators_initial_cov_def initializeKalmanFilter_covariance split: option.splits)
  obtain e' fs g' where
    r: "fuseDataSources (u_findById u) (u_rng u) (u_now u) ?est (u_data u) = (e', fs, g')"
    by (cases "fuseDataSources (u_findById u) (u_rng u) (u_now u) ?est (u_data u)") auto
  have "covariance e' = initial_covariance"
    using fuseDataSources_covariance [of "u_findById u" "u_rng u" "u_now u" ?est "u_data u"] c r
    by simp
  moreover have "confidence fs = calculateConfidence e'"
    using r by (auto simp: fuseDataSources_def Let_def split: prod.splits)
  ultimately have "confidence fs = Num (9 / 10)"
    by (simp add: calculateConfidence_initial)
  then show ?thesis
    using r by (simp add: apply_update_def updateTrainState_def Let_def)
qed

text \<open>
  C5. Whatever updates the hub has received since it was created, with readings of any
  source, content and quality, the confidence of the fused state that the next update
  returns lies between 0 and 1.
\<close>

theorem confidence_in_unit_interval:
  "js_le (Num 0) (confidence (fst (snd (apply_update (run_updates new_hub us) u)))) \<and>
   js_le (confidence (fst (snd (apply_update (run_updates new_hub us) u)))) (Num 1)"
  using apply_update_confidence [OF run_updates_keeps_cov [OF new_hub_cov], of us u]
  by (simp add: js_le_def)

text \<open>
  C10. No fusion update writes the covariance of an estimator: the estimator that an
  update stores still has the initial values 10, 5 and 2, whatever updates the hub has
  received before, and the confidence of every fused state is 0.9.
\<close>

theorem covariance_never_written:
  "covariance (fst (fuseDataSources f g now est rs)) = covariance est \<and>
   map_option covariance (stateEstimators (fst (apply_update (run_updates new_hub us) u)) (u_train u))
     = Some \<lparr> cov_position = Num 10, cov_velocity = Num 5, cov_acceleration = Num 2 \<rparr> \<and>
   confidence (fst (snd (apply_update (run_updates new_hub us) u))) = Num (9 / 10)"
proof -
  have inv: "estimators_initial_cov (fst (apply_update (run_updates new_hub us) u))"
    by (intro apply_update_keeps_cov run_updates_keeps_cov new_hub_cov)
  have "\<exists>e. stateEstimators (fst (apply_update (run_updates new_hub us) u)) (u_train u) = Some e"
    by (simp add: apply_update_def updateTrainState_def Let_def split: prod.splits)
  then have "map_option covariance (stateEstimators (fst (apply_update (run_updates new_hub us) u)) (u_train u))
     = Some initial_covariance"
    using inv by (auto simp: estimators_initial_cov_def)
  then show ?thesis
    using apply_update_confidence [OF run_updates_keeps_cov [OF new_hub_cov], of us u]
    by (simp add: fuseDataSources_covariance initial_covariance_def)
qed

section \<open>Properties of the fusion loop\<close>

lemma updateWithTrackCircuit_rng:
  "fst (updateWithTrackCircuit g st d est) = fst (updateWithTrackCircuit g' st d est)"
  by (simp add: updateWithTrackCircuit_def getTrackSectionPosition_def Math_random_def
        promise_truthy_def promise_lat_def promise_lon_def Let_def split: prod.splits)

lemma updateWithStationReport_db:
  "updateWithStationReport db st d est = updateWithStationReport db' st d est"
  by (simp add: updateWithStationReport_def promise_truthy_def promise_lat_def promise_lon_def Let_def)

lemma fuse_loop_env:
  "fst (fuse_loop db est g st rs) = fst (fuse_loop db' est g' st rs)"
proof (induction rs arbitrary: g g' st)
  case Nil
  show ?case by simp
next
  case (Cons d ds)
  show ?case
  proof (cases "source d = ''TRACK_CIRCUIT''")
    case True
    obtain s1 g1 where a: "updateWithTrackCircuit g st d est = (s1, g1)"
      by (cases "updateWithTrackCircuit g st d est") auto
    obtain s2 g2 where b: "updateWithTrackCircuit g' st d est = (s2, g2)"
      by (cases "updateWithTrackCircuit g' st d est") auto
    have "s1 = s2"
      using updateWithTrackCircuit_rng [of g st d est g'] a b by simp
    then show ?thesis
      using True a b Cons.IH [of g1 s1 g2] by simp
  next
    case False
    then show ?thesis
      using Cons.IH updateWithStationReport_db [of db st d est db'] by simp
  qed
qed

lemma fuseDataSources_env:
  "fused_core (fst (snd (fuseDataSources db g now est rs)))
     = fused_core (fst (snd (fuseDataSources db' g' now' est rs)))"
proof -
  obtain s1 g1 where a: "fuse_loop db est g (state est) rs = (s1, g1)"
    by (cases "fuse_loop db est g (state est) rs") auto
  obtain s2 g2 where b: "fuse_loop db' est g' (state est) rs = (s2, g2)"
    by (cases "fuse_loop db' est g' (state est) rs") auto
  have "s1 = s2"
    using fuse_loop_env [of db est g "state est" rs db' g'] a b by simp
  then show ?thesis
    using a b by (simp add: fuseDataSources_def fused_core_def calculateConfidence_def Let_def)
qed

lemma fuseDataSources_same_clock:
  "fst (fuseDataSources db g now est rs) = fst (fuseDataSources db' g' now est rs) \<and>
   fst (snd (fuseDataSources db g now est rs)) = fst (snd (fuseDataSources db' g' now est rs))"
proof -
  obtain s1 g1 where a: "fuse_loop db est g (state est) rs = (s1, g1)"
    by (cases "fuse_loop db est g (state est) rs") auto
  obtain s2 g2 where b: "fuse_loop db' est g' (state est) rs = (s2, g2)"
    by (cases "fuse_loop db' est g' (state est) rs") auto
  have "s1 = s2"
    using fuse_loop_env [of db est g "state est" rs db' g'] a b by simp
  then show ?thesis
    using a b by (simp add: fuseDataSources_def Let_def)
qed

lemma updateTrainState_same_clock:
  "fst (updateTrainState db g now now' h tid rs) = fst (updateTrainState db' g' now now' h tid rs)"
proof -
  let ?est = "case stateEstimators h tid of None \<Rightarrow> initializeKalmanFilter tid | Some e \<Rightarrow> e"
  obtain e1 f1 g1 where a: "fuseDataSources db g now ?est rs = (e1, f1, g1)"
    by (cases "fuseDataSources db g now ?est rs") auto
  obtain e2 f2 g2 where b: "fuseDataSources db' g' now ?est rs = (e2, f2, g2)"
    by (cases "fuseDataSources db' g' now ?est rs") auto
  have "e1 = e2 \<and> f1 = f2"
    using fuseDataSources_same_clock [of db g now ?est rs db' g'] a b by simp
  then show ?thesis
    using a b by (simp add: updateTrainState_def Let_def)
qed

lemma processNormalizedData_same_clock:
  "fst (processNormalizedData db g now0 now now' h data)
     = fst (processNormalizedData db' g' now0 now now' h data)"
proof (cases "r_trainId data")
  case None
  then show ?thesis by (simp add: processNormalizedData_def)
next
  case (Some tid)
  show ?thesis
  proof (cases "tid = []")
    case True
    then show ?thesis using Some by (simp add: processNormalizedData_def)
  next
    case False
    define h1 where "h1 = (case trainDataBuffers h of
                         None \<Rightarrow> h
                       | Some m \<Rightarrow> (case m tid of
                                      None \<Rightarrow> h
                                    | Some b \<Rightarrow> h \<lparr> trainDataBuffers := Some (m(tid \<mapsto> getTrainDataBuffer h tid @ [data])) \<rparr>))"
    define recent where "recent = filter (\<lambda>d. js_gt (getTime (r_timestamp d)) (Num (of_int (now0 - 5 * 60 * 1000))))
                                   (getTrainDataBuffer h tid @ [data])"
    have l: "fst (processNormalizedData db g now0 now now' h data)
               = fst (updateTrainState db g now now' h1 tid recent)" for db g
      using Some False
      by (simp add: processNormalizedData_def Let_def h1_def recent_def split: prod.splits)
    show ?thesis
      using updateTrainState_same_clock [of db g now now' h1 tid recent db' g']
      by (simp add: l)
  qed
qed

lemma filter_key_distinct:
  "distinct (map f zs) \<Longrightarrow> k \<in> set zs \<Longrightarrow> filter (\<lambda>x. f k = f x) zs = [k]"
proof (induction zs)
  case Nil
  then show ?case by simp
next
  case (Cons z zs)
  show ?case
  proof (cases "k = z")
    case True
    have "filter (\<lambda>x. f z = f x) zs = []"
      using Cons.prems(1) by (auto simp: filter_empty_conv)
    then show ?thesis using True by simp
  next
    case False
    then have "k \<in> set zs" using Cons.prems(2) by simp
    moreover have "f k \<noteq> f z"
      using Cons.prems(1) \<open>k \<in> set zs\<close> by (metis distinct.simps(2) imageI list.simps(9) set_map)
    ultimately show ?thesis using Cons by simp
  qed
qed

lemma sort_key_distinct_perm:
  fixes f :: "'a \<Rightarrow> 'k::linorder"
  assumes "mset xs = mset ys" "distinct (map f xs)"
  shows "sort_key f xs = sort_key f ys"
proof (rule properties_for_sort_key)
  show "mset (sort_key f ys) = mset xs" using assms(1) by simp
  show "sorted (map f (sort_key f ys))" by simp
  fix k assume k: "k \<in> set (sort_key f ys)"
  have "mset (map f (sort_key f ys)) = mset (map f xs)"
    using assms(1) by simp
  then have d: "distinct (map f (sort_key f ys))"
    using assms(2) mset_eq_imp_distinct_iff by blast
  have "k \<in> set xs" using k assms(1) mset_eq_setD by fastforce
  then show "filter (\<lambda>x. f k = f x) (sort_key f ys) = filter (\<lambda>x. f k = f x) xs"
    using filter_key_distinct [OF d k] filter_key_distinct [OF assms(2)] by simp
qed

text \<open>
  C7. The fused position, speed, heading and confidence depend on the estimator and on
  the sequence of readings only: two runs on the same sequence give the same values,
  whatever the random draws, the station table and the clock of each run. Hence two
  arrival orders of one set of readings with distinct timestamps, each sorted by
  timestamp before the fusion, give the same fused state. The hub that
  \<open>processNormalizedData\<close> leaves after a reading, at given clock values, does not
  depend on the random draws or the station table either.
\<close>

theorem fusion_deterministic_given_order:
  "fused_core (fst (snd (fuseDataSources db g now est rs)))
     = fused_core (fst (snd (fuseDataSources db' g' now' est rs))) \<and>
   (mset xs = mset ys \<and> distinct (map r_timestamp xs) \<longrightarrow>
      fused_core (fst (snd (fuseDataSources db g now est (sort_key r_timestamp xs))))
        = fused_core (fst (snd (fuseDataSources db' g' now' est (sort_key r_timestamp ys))))) \<and>
   fst (processNormalizedData db g c0 c1 c2 h data) = fst (processNormalizedData db' g' c0 c1 c2 h data)"
proof (intro conjI impI)
  show "fst (processNormalizedData db g c0 c1 c2 h data) = fst (processNormalizedData db' g' c0 c1 c2 h data)"
    by (rule processNormalizedData_same_clock)
next
  show "fused_core (fst (snd (fuseDataSources db g now est rs)))
     = fused_core (fst (snd (fuseDataSources db' g' now' est rs)))"
    by (rule fuseDataSources_env)
next
  assume a: "mset xs = mset ys \<and> distinct (map r_timestamp xs)"
  then have "sort_key r_timestamp xs = sort_key r_timestamp ys"
    using sort_key_distinct_perm [of xs ys r_timestamp] by simp
  then show "fused_core (fst (snd (fuseDataSources db g now est (sort_key r_timestamp xs))))
        = fused_core (fst (snd (fuseDataSources db' g' now' est (sort_key r_timestamp ys))))"
    using fuseDataSources_env [of db g now est "sort_key r_timestamp ys" db' g' now'] by simp
qed

theorem fusion_deterministic_given_order_witness:
  "mset [sample_gps, sample_circuit] = mset [sample_circuit, sample_gps] \<and>
   distinct (map r_timestamp [sample_gps, sample_circuit]) \<and>
   sort_key r_timestamp [sample_gps, sample_circuit] = [sample_circuit, sample_gps] \<and>
   fused_core (fst (snd (fuseDataSources Map.empty (\<lambda>n. 0) 5000 (initializeKalmanFilter ''12951'')
                           (sort_key r_timestamp [sample_gps, sample_circuit]))))
     = fused_core (fst (snd (fuseDataSources Map.empty (\<lambda>n. 1 / 2) 9000 (initializeKalmanFilter ''12951'')
                           (sort_key r_timestamp [sample_circuit, sample_gps]))))"
proof -
  have m: "mset [sample_gps, sample_circuit] = mset [sample_circuit, sample_gps]"
    by (simp add: add_mset_commute)
  have d: "distinct (map r_timestamp [sample_gps, sample_circuit])"
    by (simp add: sample_gps_def sample_circuit_def)
  have s: "sort_key r_timestamp [sample_gps, sample_circuit] = [sample_circuit, sample_gps]"
    by (simp add: sample_gps_def sample_circuit_def)
  show ?thesis
    using m d s
      fusion_deterministic_given_order [of Map.empty "\<lambda>n. 0" 5000 "initializeKalmanFilter ''12951''" "[]"
        Map.empty "\<lambda>n. 1 / 2" 9000 "[sample_gps, sample_circuit]" "[sample_circuit, sample_gps]"]
    by blast
qed

text \<open>
  C3, as amended. An occupancy reading changes the fused state only when it reports the
  section occupied and names a detected train, whichever train that is; in every other
  case state and generator are returned as they were. Velocity and acceleration are
  never touched.
\<close>

theorem occupancy_reading_effect:
  "(\<not> (occupied d \<and> str_truthy (trainDetected d)) \<longrightarrow> updateWithTrackCircuit g st d est = (st, g)) \<and>
   velocity (fst (updateWithTrackCircuit g st d est)) = velocity st \<and>
   acceleration (fst (updateWithTrackCircuit g st d est)) = acceleration st"
  by (simp add: updateWithTrackCircuit_def getTrackSectionPosition_def Math_random_def
        promise_truthy_def Let_def split: prod.splits)

theorem occupancy_reading_effect_witness:
  "\<not> (occupied (sample_circuit \<lparr> occupied := False \<rparr>)
        \<and> str_truthy (trainDetected (sample_circuit \<lparr> occupied := False \<rparr>))) \<and>
   updateWithTrackCircuit (\<lambda>n. 0) (state (initializeKalmanFilter ''12951''))
       (sample_circuit \<lparr> occupied := False \<rparr>) (initializeKalmanFilter ''12951'')
     = (state (initializeKalmanFilter ''12951''), \<lambda>n. 0)"
  using occupancy_reading_effect [of "sample_circuit \<lparr> occupied := False \<rparr>" "\<lambda>n. 0"
          "state (initializeKalmanFilter ''12951'')" "initializeKalmanFilter ''12951''"]
  by simp

text \<open>
  C3, as stated, fails: the estimator of train 12951 takes the correction from a reading
  in which the track circuit detected train 12002.
\<close>

theorem occupancy_other_train_counterexample:
  "occupied sample_circuit \<and>
   trainDetected sample_circuit \<noteq> Some (trainId (initializeKalmanFilter ''12951'')) \<and>
   fst (updateWithTrackCircuit (\<lambda>n. 0) (state (initializeKalmanFilter ''12951''))
          sample_circuit (initializeKalmanFilter ''12951''))
     \<noteq> state (initializeKalmanFilter ''12951'') \<and>
   position (state (initializeKalmanFilter ''12951'')) = \<lparr> lat = Num 0, lon = Num 0 \<rparr> \<and>
   position (fst (updateWithTrackCircuit (\<lambda>n. 0) (state (initializeKalmanFilter ''12951''))
                    sample_circuit (initializeKalmanFilter ''12951'')))
     = \<lparr> lat = NaN, lon = NaN \<rparr>"
  by (simp add: updateWithTrackCircuit_def getTrackSectionPosition_def Math_random_def
        promise_truthy_def promise_lat_def promise_lon_def sample_circuit_def
        initializeKalmanFilter_def str_truthy_def blend_def calculateKalmanGain_def js_sub_def Let_def)

section \<open>Properties of the quality score\<close>

text \<open>
  C9. The quality of a positional reading is the product of the factors 0.8 (accuracy
  above 10), 0.6 (accuracy above 50), 0.5 (speed above 200) and 0.7 (age above 30000
  milliseconds), each present only when its condition holds, floored at 0.1; it lies
  between 0.1 and 1.
\<close>

theorem calculateGPSQuality_value:
  "calculateGPSQuality now d =
     Num ((if js_gt (g_accuracy d) (Num 10) then 8 / 10 else 1) *
          (if js_gt (g_accuracy d) (Num 50) then 6 / 10 else 1) *
          (if js_gt (g_speed d) (Num 200) then 5 / 10 else 1) *
          (if js_gt (js_sub (Num (of_int now)) (getTime (g_timestamp d))) (Num 30000) then 7 / 10 else 1)) \<and>
   calculateGPSQuality now d =
     Math_max (Num (1 / 10))
       (Num ((if js_gt (g_accuracy d) (Num 10) then 8 / 10 else 1) *
          (if js_gt (g_accuracy d) (Num 50) then 6 / 10 else 1) *
          (if js_gt (g_speed d) (Num 200) then 5 / 10 else 1) *
          (if js_gt (js_sub (Num (of_int now)) (getTime (g_timestamp d))) (Num 30000) then 7 / 10 else 1))) \<and>
   js_le (Num (1 / 10)) (calculateGPSQuality now d) \<and>
   js_le (calculateGPSQuality now d) (Num 1)"
  by (simp add: calculateGPSQuality_def Math_max_def js_le_def Let_def)

section \<open>Properties of the safety-distance check\<close>

text \<open>
  Along a meridian the haversine formula returns the arc length: a difference of
  latitude of \<open>d * 180 / (6371 * pi)\<close> degrees is a distance of \<open>d\<close> kilometres.
\<close>

lemma atan2_sin_cos:
  assumes "0 \<le> x" "x < pi / 2"
  shows "atan2 (sin x) (cos x) = x"
proof -
  have c: "0 < cos x" using assms by (simp add: cos_gt_zero_pi)
  have "arctan (sin x / cos x) = x"
    using arctan_tan [of x] assms by (simp add: tan_def)
  then show ?thesis using c by (simp add: atan2_def)
qed

lemma calculateDistance_meridian:
  assumes "0 \<le> d" "d < 6371 * pi"
  shows "calculateDistance \<lparr> lat = Num 0, lon = Num l \<rparr>
                           \<lparr> lat = Num (d * 180 / (6371 * pi)), lon = Num l \<rparr> = Num d"
proof -
  define x where "x = d / 12742"
  have x0: "0 \<le> x" using assms by (simp add: x_def)
  have x1: "x < pi / 2" using assms by (simp add: x_def)
  have s: "0 \<le> sin x" using x0 x1 by (intro sin_ge_zero) (auto intro: order.trans)
  have c: "0 < cos x" using x0 x1 by (simp add: cos_gt_zero_pi)
  have dl: "d * 180 / (6371 * pi) * pi / 180 / 2 = x" by (simp add: x_def)
  have a1: "sqrt (sin x * sin x) = sin x" using s by simp
  have "1 - sin x * sin x = cos x * cos x"
    using sin_cos_squared_add [of x] by (simp add: power2_eq_square algebra_simps)
  then have a2: "sqrt (1 - sin x * sin x) = cos x" using c by simp
  have nn: "\<not> 1 - sin x * sin x < 0"
    using \<open>1 - sin x * sin x = cos x * cos x\<close> by simp
  have nn2: "\<not> sin x * sin x < 0" by (simp add: not_less)
  show ?thesis
    using a1 a2 nn nn2 atan2_sin_cos [OF x0 x1]
    by (simp add: calculateDistance_def js_sub_def Let_def dl) (simp add: x_def)
qed

lemma set_safety_inner:
  "set (safety_inner t rest) =
     (\<lambda>t2. safety_conflict t t2 (calculateDistance (f_position t) (f_position t2))) `
       {t2 \<in> set rest. js_lt (calculateDistance (f_position t) (f_position t2)) SAFETY_DISTANCE_KM}"
  by (induction rest) (auto simp: Let_def)

lemma set_detectSafetyDistanceViolations:
  "set (detectSafetyDistanceViolations ts) =
     {safety_conflict (ts ! i) (ts ! j) (calculateDistance (f_position (ts ! i)) (f_position (ts ! j))) | i j.
        i < j \<and> j < length ts \<and>
        js_lt (calculateDistance (f_position (ts ! i)) (f_position (ts ! j))) SAFETY_DISTANCE_KM}"
  (is "?L ts = ?R ts")
proof (induction ts)
  case Nil
  show ?case by simp
next
  case (Cons t rest)
  let ?D = "\<lambda>a b. calculateDistance (f_position a) (f_position b)"
  let ?K = "\<lambda>a b. safety_conflict a b (?D a b)"
  let ?C = "\<lambda>a b. js_lt (?D a b) SAFETY_DISTANCE_KM"
  show ?case
  proof (intro set_eqI iffI)
    fix x assume "x \<in> ?L (t # rest)"
    then consider (inner) "x \<in> set (safety_inner t rest)" | (later) "x \<in> ?L rest"
      by auto
    then show "x \<in> ?R (t # rest)"
    proof cases
      case inner
      then obtain t2 where t2: "t2 \<in> set rest" "?C t t2" "x = ?K t t2"
        by (auto simp: set_safety_inner)
      then obtain j where j: "j < length rest" "rest ! j = t2"
        by (auto simp: in_set_conv_nth)
      have "x = ?K ((t # rest) ! 0) ((t # rest) ! Suc j) \<and> 0 < Suc j \<and> Suc j < length (t # rest)
              \<and> ?C ((t # rest) ! 0) ((t # rest) ! Suc j)"
        using t2 j by simp
      then show ?thesis by blast
    next
      case later
      then obtain i j where ij: "i < j" "j < length rest" "?C (rest ! i) (rest ! j)"
          "x = ?K (rest ! i) (rest ! j)"
        using Cons.IH by auto
      have "x = ?K ((t # rest) ! Suc i) ((t # rest) ! Suc j) \<and> Suc i < Suc j \<and> Suc j < length (t # rest)
              \<and> ?C ((t # rest) ! Suc i) ((t # rest) ! Suc j)"
        using ij by simp
      then show ?thesis by blast
    qed
  next
    fix x assume "x \<in> ?R (t # rest)"
    then obtain i j where ij: "i < j" "j < length (t # rest)" "?C ((t # rest) ! i) ((t # rest) ! j)"
        "x = ?K ((t # rest) ! i) ((t # rest) ! j)"
      by auto
    from ij(1) obtain j' where j': "j = Suc j'" by (cases j) auto
    show "x \<in> ?L (t # rest)"
    proof (cases i)
      case 0
      have "rest ! j' \<in> set rest" using ij(2) j' by simp
      then have "x \<in> set (safety_inner t rest)"
        using ij 0 j' by (auto simp: set_safety_inner)
      then show ?thesis by simp
    next
      case (Suc i')
      have "i' < j' \<and> j' < length rest \<and> ?C (rest ! i') (rest ! j') \<and> x = ?K (rest ! i') (rest ! j')"
        using ij Suc j' by simp
      then have "x \<in> ?R rest" by blast
      then show ?thesis using Cons.IH by simp
    qed
  qed
qed

lemma safety_inner_fields:
  "c \<in> set (safety_inner t rest) \<Longrightarrow>
     c_type c = ''SAFETY_DISTANCE_VIOLATION'' \<and> severity c = ''CRITICAL'' \<and> recommendedAction c = ''EMERGENCY_HALT''"
  by (induction rest) (auto simp: Let_def safety_conflict_def split: if_splits)

lemma detectSafetyDistanceViolations_fields:
  "c \<in> set (detectSafetyDistanceViolations ts) \<Longrightarrow>
     c_type c = ''SAFETY_DISTANCE_VIOLATION'' \<and> severity c = ''CRITICAL'' \<and> recommendedAction c = ''EMERGENCY_HALT''"
proof (induction ts)
  case Nil
  then show ?case by simp
next
  case (Cons t rest)
  then show ?case using safety_inner_fields [of c t rest] by auto
qed

text \<open>
  C1. The check reports exactly the pairs of trains, each pair once in list order, whose
  haversine distance is strictly below 2 km, and every report is CRITICAL with action
  EMERGENCY_HALT. For two trains: a report if and only if the distance is below 2, so a
  pair at exactly 2 km is not flagged and a pair at 1.999 km is.
\<close>

theorem safety_distance_flags:
  "set (detectSafetyDistanceViolations ts) =
     {safety_conflict (ts ! i) (ts ! j) (calculateDistance (f_position (ts ! i)) (f_position (ts ! j))) | i j.
        i < j \<and> j < length ts \<and>
        js_lt (calculateDistance (f_position (ts ! i)) (f_position (ts ! j))) (Num 2)} \<and>
   (\<forall>c \<in> set (detectSafetyDistanceViolations ts).
      severity c = ''CRITICAL'' \<and> recommendedAction c = ''EMERGENCY_HALT'') \<and>
   (calculateDistance (f_position t1) (f_position t2) = Num d \<longrightarrow>
      detectSafetyDistanceViolations [t1, t2] = (if d < 2 then [safety_conflict t1 t2 (Num d)] else []))"
proof (intro conjI ballI impI)
  show "set (detectSafetyDistanceViolations ts) =
     {safety_conflict (ts ! i) (ts ! j) (calculateDistance (f_position (ts ! i)) (f_position (ts ! j))) | i j.
        i < j \<and> j < length ts \<and>
        js_lt (calculateDistance (f_position (ts ! i)) (f_position (ts ! j))) (Num 2)}"
    using set_detectSafetyDistanceViolations [of ts] unfolding SAFETY_DISTANCE_KM_def .
next
  fix c assume "c \<in> set (detectSafetyDistanceViolations ts)"
  then show "severity c = ''CRITICAL''" "recommendedAction c = ''EMERGENCY_HALT''"
    using detectSafetyDistanceViolations_fields [of c ts] by blast+
next
  assume "calculateDistance (f_position t1) (f_position t2) = Num d"
  then show "detectSafetyDistanceViolations [t1, t2] = (if d < 2 then [safety_conflict t1 t2 (Num d)] else [])"
    by (simp add: SAFETY_DISTANCE_KM_def Let_def)
qed

theorem safety_distance_flags_witness:
  "calculateDistance (f_position (train_at ''12951'' 0 72))
                     (f_position (train_at ''12002'' (2 * 180 / (6371 * pi)) 72)) = Num 2 \<and>
   detectSafetyDistanceViolations
     [train_at ''12951'' 0 72, train_at ''12002'' (2 * 180 / (6371 * pi)) 72] = [] \<and>
   calculateDistance (f_position (train_at ''12951'' 0 72))
                     (f_position (train_at ''12002'' (1999 / 1000 * 180 / (6371 * pi)) 72)) = Num (1999 / 1000) \<and>
   detectSafetyDistanceViolations
     [train_at ''12951'' 0 72, train_at ''12002'' (1999 / 1000 * 180 / (6371 * pi)) 72]
     = [safety_conflict (train_at ''12951'' 0 72)
          (train_at ''12002'' (1999 / 1000 * 180 / (6371 * pi)) 72) (Num (1999 / 1000))]"
proof -
  have p: "(2::real) < 6371 * pi" "(1999 / 1000 :: real) < 6371 * pi"
    using pi_ge_two by simp_all
  have a: "calculateDistance (f_position (train_at ''12951'' 0 72))
             (f_position (train_at ''12002'' (2 * 180 / (6371 * pi)) 72)) = Num 2"
    using calculateDistance_meridian [of 2 72] p by (simp add: train_at_def)
  have b: "calculateDistance (f_position (train_at ''12951'' 0 72))
             (f_position (train_at ''12002'' (1999 / 1000 * 180 / (6371 * pi)) 72)) = Num (1999 / 1000)"
    using calculateDistance_meridian [of "1999 / 1000" 72] p by (simp add: train_at_def)
  show ?thesis
    using a b
      safety_distance_flags [of "[]" "train_at ''12951'' 0 72"
         "train_at ''12002'' (2 * 180 / (6371 * pi)) 72" 2]
      safety_distance_flags [of "[]" "train_at ''12951'' 0 72"
         "train_at ''12002'' (1999 / 1000 * 180 / (6371 * pi)) 72" "1999 / 1000"]
    by simp
qed

section \<open>Properties of the over-allocation check\<close>

lemma overallocation_step_key:
  "overallocation_step db (occ, cs) e =
     (case entry_key db e of
        None \<Rightarrow> (occ, cs)
      | Some k \<Rightarrow> (occ(k \<mapsto> occupancy_list occ k @ [f_trainId (fst e)]),
                   if 2 < Suc (length (occupancy_list occ k)) then cs @ [k] else cs))"
  by (cases e)
     (auto simp: overallocation_step_def entry_key_def occupancy_list_def Let_def
           split: option.splits)

lemma foldl_overallocation:
  "foldl (overallocation_step db) (occ, cs) es = (occ', cs') \<Longrightarrow>
     occupancy_list occ' k = occupancy_list occ k @ ids_for db k es \<and>
     filter (\<lambda>x. x = k) cs' =
       filter (\<lambda>x. x = k) cs @
       replicate (length (occupancy_list occ k) + length (ids_for db k es)
                    - max (length (occupancy_list occ k)) 2) k"
proof (induction es arbitrary: occ cs)
  case Nil
  then show ?case by (simp add: ids_for_def)
next
  case (Cons e es)
  show ?case
  proof (cases "entry_key db e")
    case None
    then have "foldl (overallocation_step db) (occ, cs) es = (occ', cs')"
      using Cons.prems by (simp add: overallocation_step_key)
    from Cons.IH [OF this] show ?thesis
      using None by (simp add: ids_for_def)
  next
    case (Some k')
    define occ1 where "occ1 = occ(k' \<mapsto> occupancy_list occ k' @ [f_trainId (fst e)])"
    define cs1 where "cs1 = (if 2 < Suc (length (occupancy_list occ k')) then cs @ [k'] else cs)"
    have f: "foldl (overallocation_step db) (occ1, cs1) es = (occ', cs')"
      using Cons.prems Some by (simp add: overallocation_step_key occ1_def cs1_def)
    note ih = Cons.IH [OF f]
    define n where "n = length (occupancy_list occ k)"
    define m where "m = length (ids_for db k es)"
    show ?thesis
    proof (cases "k' = k")
      case True
      have o1: "occupancy_list occ1 k = occupancy_list occ k @ [f_trainId (fst e)]"
        using True by (simp add: occupancy_list_def occ1_def)
      have i1: "ids_for db k (e # es) = f_trainId (fst e) # ids_for db k es"
        using Some True by (simp add: ids_for_def)
      have l1: "length (occupancy_list occ1 k) = Suc n"
        using o1 by (simp add: n_def)
      have a: "occupancy_list occ' k = occupancy_list occ k @ ids_for db k (e # es)"
        using ih o1 i1 by simp
      have c1: "filter (\<lambda>x. x = k) cs1 = filter (\<lambda>x. x = k) cs @ (if 2 < Suc n then [k] else [])"
        using True by (simp add: n_def cs1_def)
      have "filter (\<lambda>x. x = k) cs' =
              filter (\<lambda>x. x = k) cs1 @ replicate (Suc n + m - max (Suc n) 2) k"
        using ih l1 by (simp add: m_def)
      then have "filter (\<lambda>x. x = k) cs' =
              filter (\<lambda>x. x = k) cs @ ((if 2 < Suc n then [k] else []) @ replicate (Suc n + m - max (Suc n) 2) k)"
        using c1 by simp
      moreover have "(if 2 < Suc n then [k] else []) @ replicate (Suc n + m - max (Suc n) 2) k
                       = replicate (n + Suc m - max n 2) k"
      proof (cases "2 < Suc n")
        case True
        then have "Suc n + m - max (Suc n) 2 = m" "n + Suc m - max n 2 = Suc m"
          by (auto simp: max_def)
        then show ?thesis using True by simp
      next
        case False
        then have "Suc n + m - max (Suc n) 2 = n + Suc m - max n 2"
          by (auto simp: max_def)
        then show ?thesis using False by simp
      qed
      ultimately have b: "filter (\<lambda>x. x = k) cs' =
              filter (\<lambda>x. x = k) cs @ replicate (n + Suc m - max n 2) k"
        by simp
      have "length (ids_for db k (e # es)) = Suc m"
        using i1 by (simp add: m_def)
      then show ?thesis
        using a b by (simp add: n_def)
    next
      case False
      have o1: "occupancy_list occ1 k = occupancy_list occ k"
        using False by (simp add: occupancy_list_def occ1_def)
      have i1: "ids_for db k (e # es) = ids_for db k es"
        using Some False by (simp add: ids_for_def)
      have c1: "filter (\<lambda>x. x = k) cs1 = filter (\<lambda>x. x = k) cs"
        using False by (simp add: cs1_def)
      show ?thesis
        using ih o1 i1 c1 by simp
    qed
  qed
qed

lemma foldl_overallocation_keys:
  "foldl (overallocation_step db) (occ, cs) es = (occ', cs') \<Longrightarrow>
     set cs' \<subseteq> set cs \<union> {k. \<exists>e \<in> set es. entry_key db e = Some k}"
proof (induction es arbitrary: occ cs)
  case Nil
  then show ?case by simp
next
  case (Cons e es)
  show ?case
  proof (cases "entry_key db e")
    case None
    then have "foldl (overallocation_step db) (occ, cs) es = (occ', cs')"
      using Cons.prems by (simp add: overallocation_step_key)
    from Cons.IH [OF this] show ?thesis by auto
  next
    case (Some k')
    define occ1 where "occ1 = occ(k' \<mapsto> occupancy_list occ k' @ [f_trainId (fst e)])"
    define cs1 where "cs1 = (if 2 < Suc (length (occupancy_list occ k')) then cs @ [k'] else cs)"
    have f: "foldl (overallocation_step db) (occ1, cs1) es = (occ', cs')"
      using Cons.prems Some by (simp add: overallocation_step_key occ1_def cs1_def)
    have "set cs1 \<subseteq> set cs \<union> {k'}"
      by (auto simp: cs1_def)
    then show ?thesis using Cons.IH [OF f] Some by auto
  qed
qed

text \<open>
  C6. If exactly three of the scanned trains are near-stationary at station \<open>S\<close>, and
  the clock falls in one 10-minute bucket in their three iterations, the check emits
  exactly one conflict located at \<open>S\<close>: of type RESOURCE_OVERALLOCATION, severity MEDIUM,
  action STAGGER_ARRIVALS, listing the three train ids.
\<close>

theorem third_train_overallocation:
  assumes three: "map (\<lambda>e. f_trainId (fst e)) (filter (\<lambda>e. near_stationary_at db S (fst e)) trains) = [a, b, c]"
      and bucket: "\<forall>e \<in> set trains. near_stationary_at db S (fst e) \<longrightarrow> snd e div 600000 = bucket"
  shows "filter (\<lambda>x. location x = AtStation S) (detectResourceOverallocation db trains) =
           [\<lparr> c_type = ''RESOURCE_OVERALLOCATION'', severity = ''MEDIUM'', c_trains = [a, b, c],
              c_distance = None, location = AtStation S, recommendedAction = ''STAGGER_ARRIVALS'' \<rparr>]"
proof -
  obtain occ' cs' where f: "foldl (overallocation_step db) (Map.empty, []) trains = (occ', cs')"
    by (cases "foldl (overallocation_step db) (Map.empty, []) trains") auto
  have key_S: "entry_key db e = Some (S, bucket) \<longleftrightarrow> near_stationary_at db S (fst e)"
    if "e \<in> set trains" for e
    using that bucket
    by (auto simp: entry_key_def near_stationary_at_def split: option.splits)
  have key_other: "entry_key db e = Some (S, q) \<Longrightarrow> q = bucket" if "e \<in> set trains" for e q
    using that bucket
    by (auto simp: entry_key_def near_stationary_at_def split: option.splits if_splits)
  have "filter (\<lambda>e. entry_key db e = Some (S, bucket)) trains
          = filter (\<lambda>e. near_stationary_at db S (fst e)) trains"
    by (rule filter_cong) (auto simp: key_S)
  then have ids: "ids_for db (S, bucket) trains = [a, b, c]"
    using three by (simp add: ids_for_def)
  have occ: "occupancy_list occ' (S, bucket) = [a, b, c]"
    using foldl_overallocation [OF f, of "(S, bucket)"] ids by (simp add: occupancy_list_def)
  have "filter (\<lambda>x. x = (S, bucket)) cs' = replicate (3 - max 0 2) (S, bucket)"
    using foldl_overallocation [OF f, of "(S, bucket)"] ids by (simp add: occupancy_list_def)
  then have one: "filter (\<lambda>x. x = (S, bucket)) cs' = [(S, bucket)]"
    by (simp add: numeral_3_eq_3)
  have "\<And>k. k \<in> set cs' \<Longrightarrow> (fst k = S) = (k = (S, bucket))"
  proof -
    fix k assume "k \<in> set cs'"
    then obtain e where e: "e \<in> set trains" "entry_key db e = Some k"
      using foldl_overallocation_keys [OF f] by auto
    show "(fst k = S) = (k = (S, bucket))"
      using key_other [OF e(1), of "snd k"] e(2) by (cases k) auto
  qed
  then have "filter (\<lambda>k. fst k = S) cs' = filter (\<lambda>x. x = (S, bucket)) cs'"
    by (intro filter_cong) auto
  then have "filter (\<lambda>k. fst k = S) cs' = [(S, bucket)]"
    using one by simp
  moreover have "filter (\<lambda>x. location x = AtStation S) (map (overallocation_conflict occ') cs')
          = map (overallocation_conflict occ') (filter (\<lambda>k. fst k = S) cs')"
    by (simp add: filter_map comp_def overallocation_conflict_def)
  ultimately show ?thesis
    using f occ by (simp add: detectResourceOverallocation_def overallocation_conflict_def)
qed


theorem third_train_overallocation_witness:
  "map (\<lambda>e. f_trainId (fst e))
       (filter (\<lambda>e. near_stationary_at sample_train_docs ''NDLS'' (fst e)) sample_scan)
     = [''12951'', ''12002'', ''12301''] \<and>
   map (\<lambda>e. snd e div 600000)
       (filter (\<lambda>e. near_stationary_at sample_train_docs ''NDLS'' (fst e)) sample_scan)
     = [2, 2, 2] \<and>
   filter (\<lambda>x. location x = AtStation ''NDLS'') (detectResourceOverallocation sample_train_docs sample_scan) =
     [\<lparr> c_type = ''RESOURCE_OVERALLOCATION'', severity = ''MEDIUM'',
        c_trains = [''12951'', ''12002'', ''12301''],
        c_distance = None, location = AtStation ''NDLS'', recommendedAction = ''STAGGER_ARRIVALS'' \<rparr>]"
proof -
  have three: "map (\<lambda>e. f_trainId (fst e))
       (filter (\<lambda>e. near_stationary_at sample_train_docs ''NDLS'' (fst e)) sample_scan)
     = [''12951'', ''12002'', ''12301'']"
    by (simp add: sample_scan_def sample_train_docs_def near_stationary_at_def getCurrentStation_def
          str_truthy_def train_moving_def train_at_def)
  have bucket: "\<forall>e \<in> set sample_scan.
      near_stationary_at sample_train_docs ''NDLS'' (fst e) \<longrightarrow> snd e div 600000 = 2"
    by (simp add: sample_scan_def)
  have buckets: "map (\<lambda>e. snd e div 600000)
       (filter (\<lambda>e. near_stationary_at sample_train_docs ''NDLS'' (fst e)) sample_scan) = [2, 2, 2]"
    by (simp add: sample_scan_def sample_train_docs_def near_stationary_at_def getCurrentStation_def
          str_truthy_def train_moving_def train_at_def)
  show ?thesis
    using three buckets third_train_overallocation [OF three bucket] by blast
qed

section \<open>Properties of the reconciler\<close>

lemma rightShiftSchedule_stops:
  "i < length (stations sch) \<Longrightarrow>
     stations (rightShiftSchedule sch d) ! i =
       (stations sch ! i) \<lparr> arrivalTime := arrivalTime (stations sch ! i) + d * 60000,
                            departureTime := departureTime (stations sch ! i) + d * 60000 \<rparr>"
  by (simp add: rightShiftSchedule_def shiftStop_def Let_def)

lemma rightShiftSchedule_totalDelay:
  "totalDelay (rightShiftSchedule sch d) = totalDelay sch + d"
  by (simp add: rightShiftSchedule_def Let_def)

lemma successive_shifts_lower:
  "\<forall>d \<in> set ds. 0 \<le> d \<Longrightarrow> s \<in> set (successive_shifts sch ds) \<Longrightarrow> totalDelay sch \<le> totalDelay s"
proof (induction ds arbitrary: sch)
  case Nil
  then show ?case by simp
next
  case (Cons d ds)
  show ?case
  proof (cases "s = sch")
    case True
    then show ?thesis by simp
  next
    case False
    then have "s \<in> set (successive_shifts (rightShiftSchedule sch d) ds)"
      using Cons.prems(2) by simp
    then have "totalDelay (rightShiftSchedule sch d) \<le> totalDelay s"
      using Cons.IH [of "rightShiftSchedule sch d"] Cons.prems(1) by simp
    then show ?thesis
      using Cons.prems(1) by (simp add: rightShiftSchedule_totalDelay)
  qed
qed

lemma successive_shifts_sorted:
  "\<forall>d \<in> set ds. 0 \<le> d \<Longrightarrow> sorted (map totalDelay (successive_shifts sch ds))"
proof (induction ds arbitrary: sch)
  case Nil
  then show ?case by simp
next
  case (Cons d ds)
  have "\<forall>s \<in> set (successive_shifts (rightShiftSchedule sch d) ds). totalDelay sch \<le> totalDelay s"
  proof
    fix s assume "s \<in> set (successive_shifts (rightShiftSchedule sch d) ds)"
    then have "totalDelay (rightShiftSchedule sch d) \<le> totalDelay s"
      using successive_shifts_lower [of ds s "rightShiftSchedule sch d"] Cons.prems by simp
    then show "totalDelay sch \<le> totalDelay s"
      using Cons.prems by (simp add: rightShiftSchedule_totalDelay)
  qed
  then show ?case
    using Cons.IH [of "rightShiftSchedule sch d"] Cons.prems by simp
qed

lemma map_set_keys: "fst ` set (map_set acc k v) = insert k (fst ` set acc)"
  by (induction acc k v rule: map_set.induct) auto

lemma affected_keys:
  "fst ` set (foldl (\<lambda>acc a. case store a of None \<Rightarrow> acc | Some x \<Rightarrow> map_set acc a (f x)) acc0 as)
     \<subseteq> fst ` set acc0 \<union> set as"
proof (induction as arbitrary: acc0)
  case Nil
  show ?case by simp
next
  case (Cons a as)
  show ?case
  proof (cases "store a")
    case None
    then show ?thesis using Cons.IH [of acc0] by auto
  next
    case (Some x)
    then show ?thesis
      using Cons.IH [of "map_set acc0 a (f x)"] by (auto simp: map_set_keys)
  qed
qed

lemma foldl_store_other:
  "k \<notin> fst ` set entries \<Longrightarrow> foldl (\<lambda>m entry. m(fst entry \<mapsto> snd entry)) m0 entries k = m0 k"
  by (induction entries arbitrary: m0) auto

text \<open>
  C2. The right-shift keeps the stops and adds the delay, in milliseconds, to the arrival
  and to the departure time of every one of them, and adds the delay to the total delay
  of the schedule; \<open>handleRealTimeUpdate\<close> returns this schedule and stores it for the
  reporting train. Hence along any sequence of right-shifts by non-negative delays,
  from a schedule whose total delay is not negative, the total delay never decreases
  and is never negative.
\<close>

theorem right_shift_adds_delay:
  "length (stations (rightShiftSchedule sch d)) = length (stations sch) \<and>
   (\<forall>i < length (stations sch).
      stations (rightShiftSchedule sch d) ! i =
        (stations sch ! i) \<lparr> arrivalTime := arrivalTime (stations sch ! i) + d * 60000,
                             departureTime := departureTime (stations sch ! i) + d * 60000 \<rparr>) \<and>
   totalDelay (rightShiftSchedule sch d) = totalDelay sch + d \<and>
   (currentSchedule tid = Some sch \<and> tid \<notin> set affectedTrains \<longrightarrow>
      (\<exists>store r. handleRealTimeUpdate currentSchedule tid pos d affectedTrains = Inr (store, r) \<and>
                 updatedSchedule r = rightShiftSchedule sch d \<and>
                 store tid = Some (rightShiftSchedule sch d))) \<and>
   ((\<forall>d \<in> set ds. 0 \<le> d) \<and> 0 \<le> totalDelay sch \<longrightarrow>
      sorted (map totalDelay (successive_shifts sch ds)) \<and>
      (\<forall>s \<in> set (successive_shifts sch ds). 0 \<le> totalDelay s))"
proof (intro conjI allI impI ballI)
  show "length (stations (rightShiftSchedule sch d)) = length (stations sch)"
    by (simp add: rightShiftSchedule_def Let_def)
next
  fix i assume "i < length (stations sch)"
  then show "stations (rightShiftSchedule sch d) ! i =
        (stations sch ! i) \<lparr> arrivalTime := arrivalTime (stations sch ! i) + d * 60000,
                             departureTime := departureTime (stations sch ! i) + d * 60000 \<rparr>"
    by (rule rightShiftSchedule_stops)
next
  show "totalDelay (rightShiftSchedule sch d) = totalDelay sch + d"
    by (rule rightShiftSchedule_totalDelay)
next
  assume a: "currentSchedule tid = Some sch \<and> tid \<notin> set affectedTrains"
  define store1 where "store1 = currentSchedule(tid \<mapsto> shifted_in_place sch d)"
  define affected where "affected =
     foldl (\<lambda>acc a. case store1 a of None \<Rightarrow> acc
                     | Some x \<Rightarrow> map_set acc a (localRepair x (rightShiftSchedule sch d))) [] affectedTrains"
  have "fst ` set affected \<subseteq> set affectedTrains"
    using affected_keys [where store = store1 and f = "\<lambda>x. localRepair x (rightShiftSchedule sch d)"
            and ?acc0.0 = "[]" and as = affectedTrains]
    by (simp add: affected_def)
  then have "tid \<notin> fst ` set affected" using a by auto
  then have "foldl (\<lambda>m entry. m(fst entry \<mapsto> snd entry)) (store1(tid \<mapsto> rightShiftSchedule sch d)) affected tid
               = Some (rightShiftSchedule sch d)"
    by (simp add: foldl_store_other)
  then show "\<exists>store r. handleRealTimeUpdate currentSchedule tid pos d affectedTrains = Inr (store, r) \<and>
                 updatedSchedule r = rightShiftSchedule sch d \<and>
                 store tid = Some (rightShiftSchedule sch d)"
    using a by (simp add: handleRealTimeUpdate_def Let_def store1_def affected_def)
next
  assume "(\<forall>d \<in> set ds. 0 \<le> d) \<and> 0 \<le> totalDelay sch"
  then show "sorted (map totalDelay (successive_shifts sch ds))"
    by (simp add: successive_shifts_sorted)
next
  fix s
  assume "(\<forall>d \<in> set ds. 0 \<le> d) \<and> 0 \<le> totalDelay sch" "s \<in> set (successive_shifts sch ds)"
  then show "0 \<le> totalDelay s"
    using successive_shifts_lower [of ds s sch] by simp
qed


theorem right_shift_adds_delay_witness:
  "sample_store ''12951'' = Some sample_express \<and> ''12951'' \<notin> set [''51234''] \<and>
   list_all (\<lambda>d. 0 \<le> d) [15, 0, 30 :: int] \<and> 0 \<le> totalDelay sample_express \<and>
   (\<exists>store r. handleRealTimeUpdate sample_store ''12951'' \<lparr> lat = Num 27, lon = Num 77 \<rparr> 15 [''51234'']
                  = Inr (store, r) \<and>
               updatedSchedule r = rightShiftSchedule sample_express 15 \<and>
               store ''12951'' = Some (rightShiftSchedule sample_express 15)) \<and>
   map arrivalTime (stations (rightShiftSchedule sample_express 15)) = [900000, 6300000] \<and>
   map totalDelay (successive_shifts sample_express [15, 0, 30]) = [0, 15, 15, 45] \<and>
   sorted (map totalDelay (successive_shifts sample_express [15, 0, 30])) \<and>
   list_all (\<lambda>s. 0 \<le> totalDelay s) (successive_shifts sample_express [15, 0, 30])"
proof -
  have h1: "sample_store ''12951'' = Some sample_express \<and> ''12951'' \<notin> set [''51234'']"
    by (simp add: sample_store_def)
  have h2: "(\<forall>d \<in> set [15, 0, 30 :: int]. 0 \<le> d) \<and> 0 \<le> totalDelay sample_express"
    by (simp add: sample_express_def)
  have v1: "map arrivalTime (stations (rightShiftSchedule sample_express 15)) = [900000, 6300000]"
    by (simp add: sample_express_def rightShiftSchedule_def shiftStop_def Let_def)
  have v2: "map totalDelay (successive_shifts sample_express [15, 0, 30]) = [0, 15, 15, 45]"
    by (simp add: sample_express_def rightShiftSchedule_def Let_def)
  show ?thesis
    using h1 h2 v1 v2
      right_shift_adds_delay [where sch = sample_express and d = 15 and currentSchedule = sample_store
        and tid = "''12951''" and affectedTrains = "[''51234'']"
        and pos = "\<lparr> lat = Num 27, lon = Num 77 \<rparr>" and ds = "[15, 0, 30]"]
    unfolding list_all_iff by blast
qed

text \<open>
  C4 at a concrete input. The express is delayed by 15 minutes with the passenger train
  as the affected train. Before, no two stops share a station and an arrival time;
  after, the express and the passenger train arrive at MTJ at the same time, and the
  schedule of the passenger train, the train of lower precedence, is returned and
  stored as it was.
\<close>

theorem local_repair_leaves_conflict:
  "priority sample_express < priority sample_passenger \<and>
   detectConflicts (as_individual [sample_express, sample_passenger]) = 0 \<and>
   (case handleRealTimeUpdate sample_store ''12951'' \<lparr> lat = Num 27, lon = Num 77 \<rparr> 15 [''51234''] of
      Inl e \<Rightarrow> False
    | Inr (store, r) \<Rightarrow>
        updatedSchedule r = rightShiftSchedule sample_express 15 \<and>
        affectedSchedules r = [(''51234'', sample_passenger)] \<and>
        store ''12951'' = Some (rightShiftSchedule sample_express 15) \<and>
        store ''51234'' = Some sample_passenger) \<and>
   detectConflicts (as_individual [rightShiftSchedule sample_express 15, sample_passenger]) = 1"
proof -
  have a: "priority sample_express < priority sample_passenger"
    by (simp add: sample_express_def sample_passenger_def)
  have b: "detectConflicts (as_individual [sample_express, sample_passenger]) = 0"
    by (simp add: detectConflicts_def as_individual_def sample_express_def sample_passenger_def
          conflict_stop_step_def Let_def)
  have c: "detectConflicts (as_individual [rightShiftSchedule sample_express 15, sample_passenger]) = 1"
    by (simp add: detectConflicts_def as_individual_def sample_express_def sample_passenger_def
          conflict_stop_step_def rightShiftSchedule_def shiftStop_def Let_def)
  have d: "handleRealTimeUpdate sample_store ''12951'' \<lparr> lat = Num 27, lon = Num 77 \<rparr> 15 [''51234'']
             = Inr ((sample_store(''12951'' \<mapsto> shifted_in_place sample_express 15,
                                  ''12951'' \<mapsto> rightShiftSchedule sample_express 15,
                                  ''51234'' \<mapsto> sample_passenger)),
                    \<lparr> updatedSchedule = rightShiftSchedule sample_express 15,
                      affectedSchedules = [(''51234'', sample_passenger)] \<rparr>)"
    by (simp add: handleRealTimeUpdate_def sample_store_def localRepair_def Let_def)
  show ?thesis
    using a b c by (simp add: d)
qed

section \<open>Properties of the evaluation\<close>

text \<open>
  C8 at the empty input. For a schedule with no trains the simulation has no events and
  counts no conflict, and both the average delay and the on-time percentage are
  \<open>0 / 0\<close>, that is \<open>NaN\<close>; the metrics of \<open>AITrafficOptimizer\<close> for an empty
  schedule are 0.
\<close>

theorem simulation_of_no_trains:
  "events (runDiscreteEventSimulation now
             \<lparr> ind_id = i, ind_trains = [], fitness = f, ind_conflicts = c \<rparr>) = [] \<and>
   averageDelay (metrics (runDiscreteEventSimulation now
             \<lparr> ind_id = i, ind_trains = [], fitness = f, ind_conflicts = c \<rparr>)) = NaN \<and>
   onTimePerformance (metrics (runDiscreteEventSimulation now
             \<lparr> ind_id = i, ind_trains = [], fitness = f, ind_conflicts = c \<rparr>)) = NaN \<and>
   m_conflicts (metrics (runDiscreteEventSimulation now
             \<lparr> ind_id = i, ind_trains = [], fitness = f, ind_conflicts = c \<rparr>)) = 0 \<and>
   map_sum id punctuality (calculatePerformanceMetrics [] trains) = Inr (Num 0) \<and>
   map_sum id avgDelay (calculatePerformanceMetrics [] trains) = Inr (Num 0)"
  by (simp add: runDiscreteEventSimulation_def calculatePerformanceMetrics_def
        detectConflicts_def Let_def)

end
